theory Spec2Isabelle
  imports Main "HOL-Library.Word" "HOL-Library.Sublist"
begin

unbundle bit_operations_syntax

section \<open>The transaction replicator (package replication)\<close>

text \<open>
  The replicator of \<^verbatim>\<open>src/unnamed/part_000\<close> (package \<^verbatim>\<open>replication\<close>) is embedded
  with explicit state passing. The struct \<^verbatim>\<open>TxReplicator\<close> is a record; every method
  takes the record and returns the updated one. The collaborators of the replicator (the
  local database \<^verbatim>\<open>txr.db\<close>, the remote client, the chunk receiver, the outcome of a
  \<^verbatim>\<open>select\<close>) are outside the file: what they answer during one call is a record
  \<open>world\<close>, and what the replicator asks of them is returned as a list of \<open>call\<close>s, in
  the order of the calls. A panic of the Go runtime is the value \<open>Panic\<close>.

  Not represented: the mutex (every method is taken as one atomic step), the logger
  (logging changes neither the state nor the control flow), and the time a blocked
  channel operation or timer waits.
\<close>

subsection \<open>Basic types\<close>

type_synonym uint64 = "64 word"
type_synonym go_int = "64 word"     \<comment> \<open>Go's \<^verbatim>\<open>int\<close> on a 64-bit platform; read with \<open>sint\<close>\<close>
type_synonym Duration = "64 word"   \<comment> \<open>\<^verbatim>\<open>time.Duration\<close>, an \<^verbatim>\<open>int64\<close>\<close>
type_synonym byte = "8 word"
type_synonym bytes = "byte list"

datatype 'a outcome = Return 'a | Panic string

subsection \<open>Errors\<close>

text \<open>
  The four sentinel errors of the package, \<^verbatim>\<open>io.EOF\<close>, and every other error value
  (\<^verbatim>\<open>fmt.Errorf\<close>, errors of the collaborators) with its message. The code compares
  errors with the sentinels by identity and otherwise looks at \<^verbatim>\<open>err.Error()\<close>.
\<close>

datatype error =
    ErrIllegalArguments
  | ErrAlreadyRunning
  | ErrAlreadyStopped
  | ErrFollowerDivergedFromMaster
  | EOF
  | Errorf string

fun Error :: "error \<Rightarrow> string" where
  "Error ErrIllegalArguments = ''illegal arguments''"
| "Error ErrAlreadyRunning = ''already running''"
| "Error ErrAlreadyStopped = ''already stopped''"
| "Error ErrFollowerDivergedFromMaster = ''follower diverged from master''"
| "Error EOF = ''EOF''"
| "Error (Errorf msg) = msg"

text \<open>\<^verbatim>\<open>strings.Contains(s, substr)\<close>: \<open>substr\<close> occurs in \<open>s\<close> as a contiguous block.\<close>

fun Contains :: "string \<Rightarrow> string \<Rightarrow> bool" where
  "Contains [] substr = (substr = [])"
| "Contains (c # s) substr = (prefix substr (c # s) \<or> Contains s substr)"

definition commit_diverged :: string where
  "commit_diverged = ''follower commit state diverged from master'' @ [CHR 0x27] @ ''s''"

definition precommit_diverged :: string where
  "precommit_diverged = ''follower precommit state diverged from master'' @ [CHR 0x27] @ ''s''"

definition already_committed :: string where
  "already_committed = ''tx already committed''"

subsection \<open>Messages exchanged with the collaborators\<close>

text \<open>The commit state of the local store, as \<^verbatim>\<open>txr.db.CurrentState()\<close> returns it.\<close>

record ImmutableState =
  TxId :: uint64
  TxHash :: bytes
  PrecommittedTxId :: uint64
  PrecommittedTxHash :: bytes

record FollowerState =
  UUID :: string
  CommittedTxID :: uint64
  CommittedAlh :: bytes
  PrecommittedTxID :: uint64
  PrecommittedAlh :: bytes

record ExportTxRequest =
  Tx :: uint64
  ReqFollowerState :: "FollowerState option"
  AllowPreCommitted :: bool

text \<open>
  The stream an accepted \<^verbatim>\<open>ExportTx\<close> returns: what \<^verbatim>\<open>ReadFully\<close> gives on it, and
  its trailer metadata (\<^verbatim>\<open>md.Get(key)\<close> is the list of values of the key, empty when the
  key is absent).
\<close>

record ExportTxStream =
  ReadFully :: "bytes \<times> error option"
  Trailer :: "string \<Rightarrow> bytes list"

type_synonym ImmuClient = nat   \<comment> \<open>an opaque handle of a client object\<close>

datatype select_case = ContextDone | TimerFired

text \<open>
  What the collaborators answer during one step: one iteration of the fetcher, or one
  attempt of an applier.
\<close>

record world =
  client_NewImmuClient :: "string \<Rightarrow> int \<Rightarrow> error + ImmuClient"
  client_Login :: "ImmuClient \<Rightarrow> string \<Rightarrow> string \<Rightarrow> error + string"
  client_UseDatabase :: "ImmuClient \<Rightarrow> string \<Rightarrow> string \<Rightarrow> error + string"
  client_ExportTx :: "ImmuClient \<Rightarrow> ExportTxRequest \<Rightarrow> error + ExportTxStream"
  db_CurrentState :: "error + ImmutableState"
  db_IsSyncReplicationEnabled :: bool
  db_AllowCommitUpto :: "uint64 \<Rightarrow> bytes \<Rightarrow> error option"
  db_DiscardPrecommittedTxsSince :: "uint64 \<Rightarrow> error option"
  db_ReplicateTx :: "bytes \<Rightarrow> error option"
  selected :: select_case
    \<comment> \<open>the case taken by the \<^verbatim>\<open>select\<close> between \<^verbatim>\<open>mainContext.Done()\<close> and the timer\<close>

text \<open>The calls the replicator makes, with their arguments.\<close>

datatype call =
    NewImmuClient string int
  | Login ImmuClient string string
  | UseDatabase ImmuClient string string
  | Logout ImmuClient "string option"
  | Disconnect ImmuClient
  | CurrentState
  | ExportTx ImmuClient ExportTxRequest
  | AllowCommitUpto uint64 bytes
  | DiscardPrecommittedTxsSince uint64
  | ReplicateTx bytes
  | DelayAfter go_int
  | TimerStop

subsection \<open>The replicator's state\<close>

text \<open>
  Modelled from the spec: the type \<^verbatim>\<open>Options\<close> is declared in another file of the package;
  its fields are the configuration surface the specification lists, with the names the
  source reads (\<^verbatim>\<open>txr.opts.masterAddress\<close> and so on). The \<open>delayer\<close> maps the number of
  consecutive failures to a duration.
\<close>

record Options =
  masterDatabase :: string
  masterAddress :: string
  masterPort :: int
  followerUsername :: string
  followerPassword :: string
  streamChunkSize :: nat
  prefetchTxBufferSize :: nat
  replicationCommitConcurrency :: nat
  opt_allowTxDiscarding :: bool
  opt_delayer :: "go_int \<Rightarrow> Duration"

text \<open>
  A channel of exported transactions: the payloads sent and not yet received, the capacity
  it was made with, and whether it has been closed. A send on a closed channel and the
  closing of a closed channel panic. A send on an open channel is modelled at the moment it
  completes; how long it waits for room is not represented.
\<close>

record Chan =
  buf :: "bytes list"
  capacity :: nat
  closed :: bool

definition make_chan :: "nat \<Rightarrow> Chan" where
  "make_chan n = \<lparr>buf = [], capacity = n, closed = False\<rparr>"

definition send :: "Chan \<Rightarrow> bytes \<Rightarrow> Chan outcome" where
  "send ch v = (if closed ch then Panic ''send on closed channel''
                else Return (ch\<lparr>buf := buf ch @ [v]\<rparr>))"

definition close :: "Chan \<Rightarrow> Chan outcome" where
  "close ch = (if closed ch then Panic ''close of closed channel''
               else Return (ch\<lparr>closed := True\<rparr>))"

record Context =
  cancelled :: bool

text \<open>
  \<open>mainContext\<close> and \<open>cancelFunc\<close> are \<open>None\<close> for Go's nil; they are assigned together in
  \<open>Start\<close>, so calling the cancel function cancels \<open>mainContext\<close>. \<open>clientContext\<close> is a
  child of \<open>mainContext\<close> carrying the authorization token; the token is what is kept.
\<close>

record TxReplicator =
  uuid :: string
  opts :: Options
  masterDB :: string
  mainContext :: "Context option"
  cancelFunc :: "unit option"
  client :: "ImmuClient option"
  clientContext :: "string option"
  lastTx :: uint64
  prefetchTxBuffer :: Chan
  replicationConcurrency :: nat
  allowTxDiscarding :: bool
  delayer :: "go_int \<Rightarrow> Duration"
  consecutiveFailures :: go_int
  running :: bool

subsection \<open>NewTxReplicator\<close>

definition digit_char :: "nat \<Rightarrow> char" where
  "digit_char n = ''0123456789'' ! n"

fun decimal :: "nat \<Rightarrow> string" where
  "decimal n = (if n < 10 then [digit_char n] else decimal (n div 10) @ [digit_char (n mod 10)])"

definition format_int :: "int \<Rightarrow> string" where
  "format_int i = (if i < 0 then ''-'' @ decimal (nat (- i)) else decimal (nat i))"

text \<open>\<^verbatim>\<open>fmt.Sprintf("%s@%s:%d", db, address, port)\<close>\<close>

definition fullAddress :: "string \<Rightarrow> string \<Rightarrow> int \<Rightarrow> string" where
  "fullAddress db address port = db @ ''@'' @ address @ '':'' @ format_int port"

text \<open>
  \<open>db_nil\<close>, \<open>logger_nil\<close> say whether the database and the logger passed are nil; \<open>None\<close>
  is a nil \<open>opts\<close>; \<open>Valid\<close> is the method \<^verbatim>\<open>opts.Valid()\<close>, declared with
  \<^verbatim>\<open>Options\<close> and taken as a parameter.
\<close>

definition NewTxReplicator ::
  "(Options \<Rightarrow> bool) \<Rightarrow> string \<Rightarrow> bool \<Rightarrow> Options option \<Rightarrow> bool \<Rightarrow> error + TxReplicator" where
  "NewTxReplicator Valid uid db_nil o_opt logger_nil =
     (case o_opt of
        None \<Rightarrow> Inl ErrIllegalArguments
      | Some ops \<Rightarrow>
          if db_nil \<or> logger_nil \<or> \<not> Valid ops then Inl ErrIllegalArguments
          else Inr \<lparr>uuid = uid,
                    opts = ops,
                    masterDB = fullAddress (masterDatabase ops) (masterAddress ops) (masterPort ops),
                    mainContext = None,
                    cancelFunc = None,
                    client = None,
                    clientContext = None,
                    lastTx = 0,
                    prefetchTxBuffer = make_chan (prefetchTxBufferSize ops),
                    replicationConcurrency = replicationCommitConcurrency ops,
                    allowTxDiscarding = opt_allowTxDiscarding ops,
                    delayer = opt_delayer ops,
                    consecutiveFailures = 0,
                    running = False\<rparr>)"

subsection \<open>connect and disconnect\<close>

definition connect :: "world \<Rightarrow> TxReplicator \<Rightarrow> error option \<times> TxReplicator \<times> call list" where
  "connect w txr =
     (let address = masterAddress (opts txr);
          port = masterPort (opts txr);
          user = followerUsername (opts txr);
          password = followerPassword (opts txr);
          database = masterDatabase (opts txr)
      in case client_NewImmuClient w address port of
           Inl err \<Rightarrow> (Some err, txr, [NewImmuClient address port])
         | Inr c \<Rightarrow>
            (case client_Login w c user password of
               Inl err \<Rightarrow> (Some err, txr, [NewImmuClient address port, Login c user password])
             | Inr token \<Rightarrow>
                (let txr1 = txr\<lparr>clientContext := Some token\<rparr>
                 in case client_UseDatabase w c token database of
                      Inl err \<Rightarrow>
                        (Some err, txr1,
                         [NewImmuClient address port, Login c user password,
                          UseDatabase c token database])
                    | Inr token' \<Rightarrow>
                        (None, txr1\<lparr>clientContext := Some token', client := Some c\<rparr>,
                         [NewImmuClient address port, Login c user password,
                          UseDatabase c token database]))))"

definition disconnect :: "TxReplicator \<Rightarrow> TxReplicator \<times> call list" where
  "disconnect txr =
     (case client txr of
        None \<Rightarrow> (txr, [])
      | Some c \<Rightarrow> (txr\<lparr>client := None\<rparr>, [Logout c (clientContext txr), Disconnect c]))"

subsection \<open>handleError\<close>

text \<open>
  A method that can panic returns its \<open>outcome\<close> together with the calls made up to the
  return or the panic. \<open>sel\<close> is the case the \<^verbatim>\<open>select\<close> takes. Reading
  \<^verbatim>\<open>txr.mainContext.Done()\<close> on a nil context panics. The comparison
  \<^verbatim>\<open>txr.consecutiveFailures >= 3\<close> is signed.
\<close>

definition handleError ::
  "select_case \<Rightarrow> error option \<Rightarrow> TxReplicator \<Rightarrow> (bool \<times> TxReplicator) outcome \<times> call list" where
  "handleError sel err txr =
     (case err of
        None \<Rightarrow> (Return (False, txr\<lparr>consecutiveFailures := 0\<rparr>), [])
      | Some e \<Rightarrow>
         (let txr1 = txr\<lparr>consecutiveFailures := consecutiveFailures txr + 1\<rparr>
          in case mainContext txr1 of
               None \<Rightarrow> (Panic ''nil pointer dereference'', [DelayAfter (consecutiveFailures txr1)])
             | Some ctx \<Rightarrow>
                (case sel of
                   ContextDone \<Rightarrow>
                     (Return (True, txr1), [DelayAfter (consecutiveFailures txr1), TimerStop])
                 | TimerFired \<Rightarrow>
                    (if 3 \<le> sint (consecutiveFailures txr1)
                     then (Return (False, fst (disconnect txr1)),
                           DelayAfter (consecutiveFailures txr1) # snd (disconnect txr1))
                     else (Return (False, txr1), [DelayAfter (consecutiveFailures txr1)])))))"

subsection \<open>Start and Stop\<close>

text \<open>
  \<open>Start\<close> changes the state and starts the goroutines; the goroutines are the functions
  \<open>fetcher\<close> and \<open>applier\<close> below.
\<close>

definition Start :: "TxReplicator \<Rightarrow> error option \<times> TxReplicator" where
  "Start txr =
     (if running txr then (Some ErrAlreadyRunning, txr)
      else (None, txr\<lparr>mainContext := Some \<lparr>cancelled = False\<rparr>,
                      cancelFunc := Some (),
                      running := True\<rparr>))"

definition cancel :: "TxReplicator \<Rightarrow> TxReplicator" where
  "cancel txr = txr\<lparr>mainContext := map_option (\<lambda>ctx. ctx\<lparr>cancelled := True\<rparr>) (mainContext txr)\<rparr>"

definition Stop :: "TxReplicator \<Rightarrow> (error option \<times> TxReplicator) outcome \<times> call list" where
  "Stop txr =
     (let txr1 = (case cancelFunc txr of None \<Rightarrow> txr | Some _ \<Rightarrow> cancel txr)
      in if \<not> running txr1 then (Return (Some ErrAlreadyStopped, txr1), [])
         else case close (prefetchTxBuffer txr1) of
                Panic msg \<Rightarrow> (Panic msg, [])
              | Return ch \<Rightarrow>
                 (let txr2 = txr1\<lparr>prefetchTxBuffer := ch\<rparr>
                  in (Return (None, (fst (disconnect txr2))\<lparr>running := False\<rparr>),
                      snd (disconnect txr2))))"

subsection \<open>fetchNextTx\<close>

text \<open>
  \<^verbatim>\<open>binary.BigEndian.Uint64(b)\<close> reads the first eight bytes and panics on a shorter
  slice. \<open>copy32\<close> is \<^verbatim>\<open>var a [32]byte; copy(a[:], src)\<close>: the first 32 bytes of the
  source, the rest of the array left zero.
\<close>

definition BigEndian_Uint64 :: "bytes \<Rightarrow> uint64 outcome" where
  "BigEndian_Uint64 b =
     (if length b < 8 then Panic ''index out of range''
      else Return (ucast (b ! 7) OR push_bit 8 (ucast (b ! 6)) OR push_bit 16 (ucast (b ! 5)) OR
                   push_bit 24 (ucast (b ! 4)) OR push_bit 32 (ucast (b ! 3)) OR
                   push_bit 40 (ucast (b ! 2)) OR push_bit 48 (ucast (b ! 1)) OR
                   push_bit 56 (ucast (b ! 0))))"

definition copy32 :: "bytes \<Rightarrow> bytes" where
  "copy32 src = take 32 src @ replicate (32 - length src) 0"

text \<open>Lines 389 to 394: connect when there is no client.\<close>

definition ensure_connected ::
  "world \<Rightarrow> TxReplicator \<Rightarrow> error option \<times> TxReplicator \<times> call list" where
  "ensure_connected w txr = (if client txr = None then connect w txr else (None, txr, []))"

text \<open>Lines 403 to 405: \<open>lastTx\<close> starts from the precommitted transaction of the store.\<close>

definition init_lastTx :: "ImmutableState \<Rightarrow> TxReplicator \<Rightarrow> TxReplicator" where
  "init_lastTx commitState txr =
     (if lastTx txr = 0 then txr\<lparr>lastTx := PrecommittedTxId commitState\<rparr> else txr)"

text \<open>Lines 407 to 425: the request for the transaction after \<open>lastTx\<close>.\<close>

definition export_request :: "bool \<Rightarrow> ImmutableState \<Rightarrow> TxReplicator \<Rightarrow> ExportTxRequest" where
  "export_request syncReplicationEnabled commitState txr =
     (let nextTx = lastTx txr + 1;
          state = (if syncReplicationEnabled
                   then Some \<lparr>UUID = uuid txr,
                              CommittedTxID = TxId commitState,
                              CommittedAlh = TxHash commitState,
                              PrecommittedTxID = PrecommittedTxId commitState,
                              PrecommittedAlh = PrecommittedTxHash commitState\<rparr>
                   else None)
      in \<lparr>Tx = nextTx, ReqFollowerState = state, AllowPreCommitted = syncReplicationEnabled\<rparr>)"

text \<open>
  Lines 426 to 451, the branch \<^verbatim>\<open>err != nil\<close> after \<^verbatim>\<open>ExportTx\<close>. In the discarding
  branch the variable \<^verbatim>\<open>err\<close> is assigned the result of
  \<^verbatim>\<open>DiscardPrecommittedTxsSince\<close>, and that is what both \<^verbatim>\<open>return err\<close> give back.
\<close>

definition export_failed ::
  "world \<Rightarrow> ImmutableState \<Rightarrow> error \<Rightarrow> TxReplicator \<Rightarrow> error option \<times> call list" where
  "export_failed w commitState err txr =
     (if Contains (Error err) commit_diverged then (Some ErrFollowerDivergedFromMaster, [])
      else if Contains (Error err) precommit_diverged then
        (if \<not> allowTxDiscarding txr then (Some ErrFollowerDivergedFromMaster, [])
         else
           (let err' = db_DiscardPrecommittedTxsSince w (TxId commitState + 1)
            in if err' \<noteq> None
               then (err', [DiscardPrecommittedTxsSince (TxId commitState + 1)])
               else (err', [DiscardPrecommittedTxsSince (TxId commitState + 1)])))
      else (Some err, []))"

text \<open>Lines 461 to 482, the body of \<^verbatim>\<open>if syncReplicationEnabled\<close>.\<close>

definition sync_trailer :: "world \<Rightarrow> ExportTxStream \<Rightarrow> error option outcome \<times> call list" where
  "sync_trailer w exportTxStream =
     (let md = Trailer exportTxStream
      in if length (md ''may-commit-up-to-txid-bin'') = 0 \<or>
            length (md ''may-commit-up-to-alh-bin'') = 0
         then (Return (Some (Errorf ''master is not running with synchronous replication'')), [])
         else
           (case BigEndian_Uint64 (hd (md ''may-commit-up-to-txid-bin'')) of
              Panic msg \<Rightarrow> (Panic msg, [])
            | Return mayCommitUpToTxID \<Rightarrow>
               (let mayCommitUpToAlh = copy32 (hd (md ''may-commit-up-to-alh-bin''))
                in if mayCommitUpToTxID > 0
                   then
                     (case db_AllowCommitUpto w mayCommitUpToTxID mayCommitUpToAlh of
                        Some err \<Rightarrow>
                          if Contains (Error err) commit_diverged
                          then (Return (Some ErrFollowerDivergedFromMaster),
                                [AllowCommitUpto mayCommitUpToTxID mayCommitUpToAlh])
                          else (Return (Some err),
                                [AllowCommitUpto mayCommitUpToTxID mayCommitUpToAlh])
                      | None \<Rightarrow>
                          (Return None, [AllowCommitUpto mayCommitUpToTxID mayCommitUpToAlh]))
                   else (Return None, []))))"

text \<open>The error \<open>fetchNextTx\<close> makes when a trailer key is missing in synchronous mode.\<close>

definition MasterNotSync :: error where
  "MasterNotSync = Errorf ''master is not running with synchronous replication''"

text \<open>Lines 485 to 489: a non-empty payload is sent into the queue and \<open>lastTx\<close> advances.\<close>

definition handoff :: "bytes \<Rightarrow> TxReplicator \<Rightarrow> TxReplicator outcome" where
  "handoff etx txr =
     (if length etx > 0
      then (case send (prefetchTxBuffer txr) etx of
              Panic msg \<Rightarrow> Panic msg
            | Return ch \<Rightarrow> Return (txr\<lparr>prefetchTxBuffer := ch, lastTx := lastTx txr + 1\<rparr>))
      else Return txr)"

definition fetchNextTx ::
  "world \<Rightarrow> TxReplicator \<Rightarrow> (error option \<times> TxReplicator) outcome \<times> call list" where
  "fetchNextTx w txr =
     (if \<not> running txr then (Return (Some ErrAlreadyStopped, txr), [])
      else
        (case ensure_connected w txr of
           (Some err, txr1, calls1) \<Rightarrow> (Return (Some err, txr1), calls1)
         | (None, txr1, calls1) \<Rightarrow>
            (case db_CurrentState w of
               Inl err \<Rightarrow> (Return (Some err, txr1), calls1 @ [CurrentState])
             | Inr commitState \<Rightarrow>
                (let syncReplicationEnabled = db_IsSyncReplicationEnabled w;
                     txr2 = init_lastTx commitState txr1;
                     req = export_request syncReplicationEnabled commitState txr2
                 in case client txr2 of
                      None \<Rightarrow> (Panic ''nil pointer dereference'', calls1 @ [CurrentState])
                    | Some c \<Rightarrow>
                       (case client_ExportTx w c req of
                          Inl err \<Rightarrow>
                            (Return (fst (export_failed w commitState err txr2), txr2),
                             calls1 @ [CurrentState, ExportTx c req] @
                             snd (export_failed w commitState err txr2))
                        | Inr exportTxStream \<Rightarrow>
                           (case ReadFully exportTxStream of
                              (etx, rerr) \<Rightarrow>
                                if rerr \<noteq> None \<and> rerr \<noteq> Some EOF
                                then (Return (rerr, txr2), calls1 @ [CurrentState, ExportTx c req])
                                else
                                  (case (if syncReplicationEnabled
                                         then sync_trailer w exportTxStream
                                         else (Return None, [])) of
                                     (Panic msg, calls2) \<Rightarrow>
                                       (Panic msg, calls1 @ [CurrentState, ExportTx c req] @ calls2)
                                   | (Return (Some err), calls2) \<Rightarrow>
                                       (Return (Some err, txr2),
                                        calls1 @ [CurrentState, ExportTx c req] @ calls2)
                                   | (Return None, calls2) \<Rightarrow>
                                      (case handoff etx txr2 of
                                         Panic msg \<Rightarrow>
                                           (Panic msg,
                                            calls1 @ [CurrentState, ExportTx c req] @ calls2)
                                       | Return txr3 \<Rightarrow>
                                           (Return (None, txr3),
                                            calls1 @ [CurrentState, ExportTx c req] @
                                            calls2)))))))))"

subsection \<open>The goroutines started by Start\<close>

text \<open>
  A goroutine either has returned, or has crashed the process with a panic, or is still
  in its loop after the steps it was given (a loop that waits for the next answer of a
  collaborator, or for the next payload of an open queue). Each case carries the calls
  made so far.
\<close>

datatype goroutine =
    Exited TxReplicator "call list"
  | Crashed string "call list"
  | Alive TxReplicator "call list"

text \<open>
  Lines 269 to 284: the loop around \<open>fetchNextTx\<close>, one \<open>world\<close> for each iteration. The
  calls of all iterations are collected in \<open>calls\<close>.
\<close>

fun fetcher :: "world list \<Rightarrow> TxReplicator \<Rightarrow> call list \<Rightarrow> goroutine" where
  "fetcher [] txr calls = Alive txr calls"
| "fetcher (w # ws) txr calls =
     (case fetchNextTx w txr of
        (Panic msg, calls1) \<Rightarrow> Crashed msg (calls @ calls1)
      | (Return (err, txr1), calls1) \<Rightarrow>
          if err = Some ErrAlreadyStopped then Exited txr1 (calls @ calls1)
          else if err = Some ErrFollowerDivergedFromMaster then
            (case Stop txr1 of
               (Panic msg, calls2) \<Rightarrow> Crashed msg (calls @ calls1 @ calls2)
             | (Return (_, txr2), calls2) \<Rightarrow> Exited txr2 (calls @ calls1 @ calls2))
          else
            (case handleError (selected w) err txr1 of
               (Panic msg, calls2) \<Rightarrow> Crashed msg (calls @ calls1 @ calls2)
             | (Return (terminate, txr2), calls2) \<Rightarrow>
                 if terminate then Exited txr2 (calls @ calls1 @ calls2)
                 else fetcher ws txr2 (calls @ calls1 @ calls2)))"

text \<open>
  Lines 292 to 316: the retry loop of one payload, one \<open>world\<close> for each attempt.
  \<open>failures\<close> is the local variable \<^verbatim>\<open>consecutiveFailures\<close> of the loop. The loop is left
  by \<^verbatim>\<open>break\<close> (\<open>Replicated\<close>, with the answers not used), by \<^verbatim>\<open>return\<close> (\<open>Stopped\<close>), or
  it is still retrying when the answers given are used up (\<open>Retrying\<close>).
\<close>

datatype retry =
    Replicated "world list" "call list"
  | Stopped "call list"
  | Retrying "call list"
  | RetryPanic string "call list"

fun replicate_retry ::
  "TxReplicator \<Rightarrow> bytes \<Rightarrow> go_int \<Rightarrow> world list \<Rightarrow> call list \<Rightarrow> retry" where
  "replicate_retry txr etx failures [] calls = Retrying calls"
| "replicate_retry txr etx failures (w # ws) calls =
     (case db_ReplicateTx w etx of
        None \<Rightarrow> Replicated ws (calls @ [ReplicateTx etx])
      | Some err \<Rightarrow>
          if err = ErrAlreadyStopped then Stopped (calls @ [ReplicateTx etx])
          else if Contains (Error err) already_committed
          then Replicated ws (calls @ [ReplicateTx etx])
          else
            (case mainContext txr of
               None \<Rightarrow>
                 RetryPanic ''nil pointer dereference''
                   (calls @ [ReplicateTx etx, DelayAfter (failures + 1)])
             | Some ctx \<Rightarrow>
                (case selected w of
                   ContextDone \<Rightarrow>
                     Stopped (calls @ [ReplicateTx etx, DelayAfter (failures + 1), TimerStop])
                 | TimerFired \<Rightarrow>
                     replicate_retry txr etx (failures + 1) ws
                       (calls @ [ReplicateTx etx, DelayAfter (failures + 1)]))))"

text \<open>
  Lines 287 to 318: \<^verbatim>\<open>for etx := range txr.prefetchTxBuffer\<close> over the payloads in the
  queue. The loop ends when the queue is closed and empty; on an open, empty queue the
  worker waits.
\<close>

definition dequeued :: "TxReplicator \<Rightarrow> bytes list \<Rightarrow> TxReplicator" where
  "dequeued txr q = txr\<lparr>prefetchTxBuffer := (prefetchTxBuffer txr)\<lparr>buf := q\<rparr>\<rparr>"

fun range_loop :: "TxReplicator \<Rightarrow> bytes list \<Rightarrow> world list \<Rightarrow> call list \<Rightarrow> goroutine" where
  "range_loop txr [] ws calls =
     (if closed (prefetchTxBuffer txr) then Exited (dequeued txr []) calls
      else Alive (dequeued txr []) calls)"
| "range_loop txr (etx # q) ws calls =
     (case replicate_retry txr etx 0 ws calls of
        Replicated ws' calls' \<Rightarrow> range_loop txr q ws' calls'
      | Stopped calls' \<Rightarrow> Exited (dequeued txr q) calls'
      | Retrying calls' \<Rightarrow> Alive (dequeued txr q) calls'
      | RetryPanic msg calls' \<Rightarrow> Crashed msg calls')"

definition applier :: "world list \<Rightarrow> TxReplicator \<Rightarrow> goroutine" where
  "applier ws txr = range_loop txr (buf (prefetchTxBuffer txr)) ws []"

subsection \<open>What is observed of a run\<close>

text \<open>The transaction ids asked of the master, in the order of the \<open>ExportTx\<close> calls.\<close>

fun requested :: "call list \<Rightarrow> uint64 list" where
  "requested [] = []"
| "requested (ExportTx c req # calls) = Tx req # requested calls"
| "requested (x # calls) = requested calls"

fun calls_of :: "goroutine \<Rightarrow> call list" where
  "calls_of (Exited txr calls) = calls"
| "calls_of (Crashed msg calls) = calls"
| "calls_of (Alive txr calls) = calls"

text \<open>
  Consecutive iterations of the fetcher loop that all return nil: \<open>fetchNextTx\<close> returns
  no error, \<open>handleError\<close> is called with nil, and the next iteration starts from the state
  it leaves.
\<close>

fun error_free :: "world list \<Rightarrow> TxReplicator \<Rightarrow> bool" where
  "error_free [] txr = True"
| "error_free (w # ws) txr =
     (case fetchNextTx w txr of
        (Return (None, txr1), calls1) \<Rightarrow>
          (case handleError (selected w) None txr1 of
             (Return (terminate, txr2), calls2) \<Rightarrow> error_free ws txr2
           | (Panic msg, calls2) \<Rightarrow> False)
      | (Return (Some err, txr1), calls1) \<Rightarrow> False
      | (Panic msg, calls1) \<Rightarrow> False)"

text \<open>A master that accepts every request and answers it with a non-empty payload.\<close>

definition answers_payload :: "world \<Rightarrow> bool" where
  "answers_payload w =
     (\<forall>c req. case client_ExportTx w c req of
                 Inl err \<Rightarrow> False
               | Inr exportTxStream \<Rightarrow> fst (ReadFully exportTxStream) \<noteq> [])"

text \<open>
  The answers of \<open>ReplicateTx\<close> as the retry loop tells them apart: a failure that is
  retried, and a success (nil, or an error whose message says that the transaction is
  already committed).
\<close>

definition transient_failure :: "world \<Rightarrow> bytes \<Rightarrow> bool" where
  "transient_failure w etx =
     (case db_ReplicateTx w etx of
        None \<Rightarrow> False
      | Some err \<Rightarrow> err \<noteq> ErrAlreadyStopped \<and> \<not> Contains (Error err) already_committed)"

definition replicated :: "world \<Rightarrow> bytes \<Rightarrow> bool" where
  "replicated w etx =
     (case db_ReplicateTx w etx of
        None \<Rightarrow> True
      | Some err \<Rightarrow> err \<noteq> ErrAlreadyStopped \<and> Contains (Error err) already_committed)"

text \<open>
  The calls of \<open>k\<close> failed attempts on a payload, for a loop whose counter of failures
  stands at \<open>n\<close>.
\<close>

fun backoff_calls :: "bytes \<Rightarrow> go_int \<Rightarrow> nat \<Rightarrow> call list" where
  "backoff_calls etx n 0 = []"
| "backoff_calls etx n (Suc k) =
     [ReplicateTx etx, DelayAfter (n + 1)] @ backoff_calls etx (n + 1) k"

subsection \<open>A replicator and its collaborators, for the examples\<close>

definition example_opts :: Options where
  "example_opts =
     \<lparr>masterDatabase = ''defaultdb'', masterAddress = ''127.0.0.1'', masterPort = 3322,
      followerUsername = ''follower'', followerPassword = ''secret'',
      streamChunkSize = 4096, prefetchTxBufferSize = 100, replicationCommitConcurrency = 2,
      opt_allowTxDiscarding = True, opt_delayer = (\<lambda>n. 1000 * n)\<rparr>"

text \<open>The replicator \<open>NewTxReplicator\<close> builds from these options.\<close>

definition fresh_txr :: TxReplicator where
  "fresh_txr =
     \<lparr>uuid = ''follower-1'', opts = example_opts,
      masterDB = ''defaultdb@127.0.0.1:3322'',
      mainContext = None, cancelFunc = None, client = None, clientContext = None,
      lastTx = 0, prefetchTxBuffer = make_chan 100, replicationConcurrency = 2,
      allowTxDiscarding = True, delayer = (\<lambda>n. 1000 * n), consecutiveFailures = 0,
      running = False\<rparr>"

text \<open>The same replicator after \<open>Start\<close>.\<close>

definition started_txr :: TxReplicator where
  "started_txr = fresh_txr\<lparr>mainContext := Some \<lparr>cancelled = False\<rparr>, cancelFunc := Some (),
                           running := True\<rparr>"

text \<open>
  A master that accepts the follower and exports the payload \<open>[1, 2, 3]\<close> with an empty
  trailer, and an asynchronous local store at transaction 4.
\<close>

definition good_stream :: ExportTxStream where
  "good_stream = \<lparr>ReadFully = ([1, 2, 3], None), Trailer = (\<lambda>key. [])\<rparr>"

definition good_world :: world where
  "good_world =
     \<lparr>client_NewImmuClient = (\<lambda>address port. Inr 1),
      client_Login = (\<lambda>c user password. Inr ''login-token''),
      client_UseDatabase = (\<lambda>c token database. Inr ''db-token''),
      client_ExportTx = (\<lambda>c req. Inr good_stream),
      db_CurrentState = Inr \<lparr>TxId = 4, TxHash = [], PrecommittedTxId = 4,
                              PrecommittedTxHash = []\<rparr>,
      db_IsSyncReplicationEnabled = False,
      db_AllowCommitUpto = (\<lambda>txID alh. None),
      db_DiscardPrecommittedTxsSince = (\<lambda>txID. None),
      db_ReplicateTx = (\<lambda>etx. None),
      selected = TimerFired\<rparr>"

text \<open>The started replicator once \<open>connect\<close> has succeeded against \<open>good_world\<close>.\<close>

definition connected_txr :: TxReplicator where
  "connected_txr = started_txr\<lparr>clientContext := Some ''db-token'', client := Some 1\<rparr>"

text \<open>The connected replicator after \<open>Stop\<close>.\<close>

definition stopped_txr :: TxReplicator where
  "stopped_txr =
     connected_txr\<lparr>mainContext := Some \<lparr>cancelled = True\<rparr>,
                   prefetchTxBuffer := \<lparr>buf = [], capacity = 100, closed = True\<rparr>,
                   client := None, running := False\<rparr>"

definition example_state :: ImmutableState where
  "example_state = \<lparr>TxId = 4, TxHash = [], PrecommittedTxId = 4, PrecommittedTxHash = []\<rparr>"

definition connect_calls :: "call list" where
  "connect_calls = [NewImmuClient ''127.0.0.1'' 3322, Login 1 ''follower'' ''secret'',
       UseDatabase 1 ''login-token'' ''defaultdb'']"

text \<open>Worlds that differ from \<open>good_world\<close> in one answer.\<close>

definition login_fails :: world where
  "login_fails = good_world\<lparr>client_Login := (\<lambda>c user password. Inl (Errorf ''invalid credentials''))\<rparr>"

definition precommit_diverges :: world where
  "precommit_diverges =
     good_world\<lparr>client_ExportTx := (\<lambda>c req. Inl (Errorf (''rpc error: '' @ precommit_diverged)))\<rparr>"

definition discard_fails :: world where
  "discard_fails =
     precommit_diverges\<lparr>db_DiscardPrecommittedTxsSince := (\<lambda>txID. Some (Errorf ''discard failed''))\<rparr>"

definition commit_diverges :: world where
  "commit_diverges =
     good_world\<lparr>client_ExportTx := (\<lambda>c req. Inl (Errorf (''rpc error: '' @ commit_diverged)))\<rparr>"

text \<open>
  A synchronous store, and a master that answers with an empty payload and the hint that the
  follower may commit up to transaction 10.
\<close>

definition hint_stream :: ExportTxStream where
  "hint_stream =
     \<lparr>ReadFully = ([], Some EOF),
      Trailer = (\<lambda>key. if key = ''may-commit-up-to-txid-bin'' then [[0, 0, 0, 0, 0, 0, 0, 10]]
                       else if key = ''may-commit-up-to-alh-bin'' then [replicate 32 7]
                       else [])\<rparr>"

definition sync_hint :: world where
  "sync_hint = good_world\<lparr>db_IsSyncReplicationEnabled := True,
                          client_ExportTx := (\<lambda>c req. Inr hint_stream)\<rparr>"

definition sync_no_trailer :: world where
  "sync_no_trailer = good_world\<lparr>db_IsSyncReplicationEnabled := True\<rparr>"

text \<open>
  A started replicator with two payloads in a closed queue, and local stores that refuse a
  transaction or have it already.
\<close>

definition queued_txr :: TxReplicator where
  "queued_txr =
     started_txr\<lparr>prefetchTxBuffer := \<lparr>buf = [[1, 2, 3], [4]], capacity = 100, closed = True\<rparr>,
                 consecutiveFailures := 2\<rparr>"

definition disk_full :: world where
  "disk_full = good_world\<lparr>db_ReplicateTx := (\<lambda>etx. Some (Errorf ''disk full''))\<rparr>"

definition committed_before :: world where
  "committed_before =
     good_world\<lparr>db_ReplicateTx := (\<lambda>etx. Some (Errorf (''store: '' @ already_committed)))\<rparr>"

lemmas example_defs =
  connected_txr_def started_txr_def fresh_txr_def example_opts_def make_chan_def
  good_world_def good_stream_def login_fails_def precommit_diverges_def commit_diverges_def
  hint_stream_def sync_hint_def sync_no_trailer_def discard_fails_def example_state_def
  connect_calls_def

section \<open>Properties\<close>

subsection \<open>disconnect, Start and Stop\<close>

lemma disconnect_client: "client (fst (disconnect txr)) = None"
  by (simp add: disconnect_def split: option.splits)

lemma disconnect_calls:
  "snd (disconnect txr) =
     (case client txr of None \<Rightarrow> [] | Some c \<Rightarrow> [Logout c (clientContext txr), Disconnect c])"
  by (simp add: disconnect_def split: option.splits)

lemma cancel_idem: "cancel (cancel txr) = cancel txr"
  by (cases "mainContext txr") (simp_all add: cancel_def)

text \<open>
  A replicator that is not running and whose context, if it has one, is already cancelled:
  \<open>Stop\<close> finds nothing to do.
\<close>

lemma Stop_after_cancel:
  assumes "\<not> running txr" and "cancelFunc txr \<noteq> None \<longrightarrow> cancel txr = txr"
  shows "Stop txr = (Return (Some ErrAlreadyStopped, txr), [])"
  using assms by (cases "cancelFunc txr") (simp_all add: Stop_def cancel_def)

lemma NewTxReplicator_idle:
  assumes "NewTxReplicator Valid uid db_nil o_opt logger_nil = Inr txr"
  shows "\<not> running txr \<and> cancelFunc txr = None"
  using assms by (auto simp: NewTxReplicator_def split: option.splits if_splits)

lemma Stop_leaves_idle:
  assumes "fst (Stop t) = Return (e, txr)"
  shows "\<not> running txr \<and> (cancelFunc txr \<noteq> None \<longrightarrow> cancel txr = txr)"
proof (cases "cancelFunc t")
  case None
  with assms show ?thesis
    by (auto simp: Stop_def Let_def close_def disconnect_def split: if_splits option.splits)
next
  case (Some u)
  with assms show ?thesis
    by (cases "mainContext t")
       (auto simp: Stop_def Let_def close_def disconnect_def cancel_def
             split: if_splits option.splits)
qed

text \<open>
  C9. \<open>Stop\<close> on a replicator that was never started (as \<open>NewTxReplicator\<close> built it) or
  that has been stopped (the state a returning \<open>Stop\<close> left) returns \<open>ErrAlreadyStopped\<close>
  without a panic, makes no call (no logout, no disconnect) and leaves the whole state as
  it was, the queue included; \<open>Start\<close> on that state then returns no error and the
  replicator is running.
\<close>

theorem Stop_when_not_running:
  assumes "NewTxReplicator Valid uid db_nil o_opt logger_nil = Inr txr \<or>
           fst (Stop t) = Return (e, txr)"
  shows "Stop txr = (Return (Some ErrAlreadyStopped, txr), []) \<and>
         (\<exists>txr'. Start txr = (None, txr') \<and> running txr')"
proof -
  from assms have idle: "\<not> running txr \<and> (cancelFunc txr \<noteq> None \<longrightarrow> cancel txr = txr)"
  proof
    assume "NewTxReplicator Valid uid db_nil o_opt logger_nil = Inr txr"
    from NewTxReplicator_idle [OF this] show ?thesis by simp
  next
    assume "fst (Stop t) = Return (e, txr)"
    from Stop_leaves_idle [OF this] show ?thesis .
  qed
  then show ?thesis
    by (simp add: Stop_after_cancel Start_def)
qed

lemma NewTxReplicator_example:
  "NewTxReplicator (\<lambda>ops. True) ''follower-1'' False (Some example_opts) False = Inr fresh_txr"
  by (simp add: NewTxReplicator_def fresh_txr_def example_opts_def fullAddress_def
      format_int_def digit_char_def)

theorem Stop_when_not_running_witness:
  "NewTxReplicator (\<lambda>ops. True) ''follower-1'' False (Some example_opts) False = Inr fresh_txr \<and>
   Stop fresh_txr = (Return (Some ErrAlreadyStopped, fresh_txr), []) \<and>
   (\<exists>txr'. Start fresh_txr = (None, txr') \<and> running txr') \<and>
   fst (Stop connected_txr) = Return (None, stopped_txr) \<and>
   Stop stopped_txr = (Return (Some ErrAlreadyStopped, stopped_txr), []) \<and>
   (\<exists>txr'. Start stopped_txr = (None, txr') \<and> running txr')"
proof -
  have s: "fst (Stop connected_txr) = Return (None, stopped_txr)"
    by (simp add: Stop_def cancel_def close_def disconnect_def stopped_txr_def example_defs)
  from Stop_when_not_running
          [of "\<lambda>ops. True" "''follower-1''" False "Some example_opts" False fresh_txr]
       Stop_when_not_running
          [of "\<lambda>ops. True" "''follower-1''" False "Some example_opts" False stopped_txr
              connected_txr None]
       NewTxReplicator_example s
  show ?thesis by simp
qed

subsection \<open>handleError\<close>

text \<open>
  C6. \<open>handleError\<close> with a nil error sets the counter of consecutive failures to 0 and
  returns false (continue). With an error \<open>e\<close> it increments the counter to \<open>n\<close> and asks
  the delayer for the delay after \<open>n\<close> failures; when the \<^verbatim>\<open>select\<close> takes the
  cancellation case it stops the timer and returns true (terminate), without
  disconnecting; when the timer fires it calls \<open>disconnect\<close> if \<open>n\<close> is 3 or more, and
  returns false (continue).
\<close>

theorem handleError_spec:
  assumes "mainContext txr = Some ctx"
    and "n = consecutiveFailures txr + 1"
  shows "handleError sel None txr = (Return (False, txr\<lparr>consecutiveFailures := 0\<rparr>), []) \<and>
         handleError ContextDone (Some e) txr =
           (Return (True, txr\<lparr>consecutiveFailures := n\<rparr>), [DelayAfter n, TimerStop]) \<and>
         handleError TimerFired (Some e) txr =
           (if 3 \<le> sint n
            then (Return (False, fst (disconnect (txr\<lparr>consecutiveFailures := n\<rparr>))),
                  DelayAfter n # snd (disconnect (txr\<lparr>consecutiveFailures := n\<rparr>)))
            else (Return (False, txr\<lparr>consecutiveFailures := n\<rparr>), [DelayAfter n]))"
  using assms by (simp add: handleError_def Let_def)

theorem handleError_spec_witness:
  "mainContext (connected_txr\<lparr>consecutiveFailures := 2\<rparr>) = Some \<lparr>cancelled = False\<rparr> \<and>
   handleError TimerFired None (connected_txr\<lparr>consecutiveFailures := 2\<rparr>) =
     (Return (False, connected_txr\<lparr>consecutiveFailures := 0\<rparr>), []) \<and>
   handleError ContextDone (Some EOF) (connected_txr\<lparr>consecutiveFailures := 2\<rparr>) =
     (Return (True, connected_txr\<lparr>consecutiveFailures := 3\<rparr>), [DelayAfter 3, TimerStop]) \<and>
   handleError TimerFired (Some EOF) (connected_txr\<lparr>consecutiveFailures := 2\<rparr>) =
     (Return (False, connected_txr\<lparr>consecutiveFailures := 3, client := None\<rparr>),
      [DelayAfter 3, Logout 1 (Some ''db-token''), Disconnect 1]) \<and>
   handleError TimerFired (Some EOF) (connected_txr\<lparr>consecutiveFailures := 1\<rparr>) =
     (Return (False, connected_txr\<lparr>consecutiveFailures := 2\<rparr>), [DelayAfter 2])"
proof -
  have m: "mainContext (connected_txr\<lparr>consecutiveFailures := c\<rparr>) = Some \<lparr>cancelled = False\<rparr>"
    for c
    by (simp add: example_defs)
  from handleError_spec [OF m [of 2] refl, where sel = TimerFired and e = EOF]
       handleError_spec [OF m [of 1] refl, where sel = TimerFired and e = EOF] m [of 2]
  show ?thesis
    by (simp add: disconnect_def example_defs)
qed

subsection \<open>connect\<close>

lemma connect_frame:
  "running (fst (snd (connect w txr))) = running txr \<and>
   allowTxDiscarding (fst (snd (connect w txr))) = allowTxDiscarding txr \<and>
   lastTx (fst (snd (connect w txr))) = lastTx txr \<and>
   opts (fst (snd (connect w txr))) = opts txr \<and>
   prefetchTxBuffer (fst (snd (connect w txr))) = prefetchTxBuffer txr \<and>
   consecutiveFailures (fst (snd (connect w txr))) = consecutiveFailures txr"
  by (simp add: connect_def Let_def split: sum.splits)

lemma connect_calls_start:
  "\<exists>rest. snd (snd (connect w txr)) =
     NewImmuClient (masterAddress (opts txr)) (masterPort (opts txr)) # rest"
  by (simp add: connect_def Let_def split: sum.splits)

lemma connect_client:
  "(fst (connect w txr) \<noteq> None \<longrightarrow> client (fst (snd (connect w txr))) = client txr) \<and>
   (fst (connect w txr) = None \<longrightarrow> client (fst (snd (connect w txr))) \<noteq> None)"
  by (simp add: connect_def Let_def split: sum.splits)

lemma ensure_connected_frame:
  "running (fst (snd (ensure_connected w txr))) = running txr \<and>
   allowTxDiscarding (fst (snd (ensure_connected w txr))) = allowTxDiscarding txr \<and>
   lastTx (fst (snd (ensure_connected w txr))) = lastTx txr \<and>
   opts (fst (snd (ensure_connected w txr))) = opts txr \<and>
   prefetchTxBuffer (fst (snd (ensure_connected w txr))) = prefetchTxBuffer txr \<and>
   consecutiveFailures (fst (snd (ensure_connected w txr))) = consecutiveFailures txr"
  using connect_frame [of w txr] by (simp add: ensure_connected_def)

lemma ensure_connected_calls:
  assumes "ensure_connected w txr = (e, txr1, calls1)"
  shows "\<forall>x \<in> set calls1. (\<exists>a p. x = NewImmuClient a p) \<or> (\<exists>c u p. x = Login c u p) \<or>
           (\<exists>c t d. x = UseDatabase c t d)"
  using assms
  by (auto simp: ensure_connected_def connect_def Let_def split: if_splits sum.splits)

lemma init_lastTx_frame:
  "client (init_lastTx cs txr) = client txr \<and>
   running (init_lastTx cs txr) = running txr \<and>
   allowTxDiscarding (init_lastTx cs txr) = allowTxDiscarding txr \<and>
   prefetchTxBuffer (init_lastTx cs txr) = prefetchTxBuffer txr \<and>
   clientContext (init_lastTx cs txr) = clientContext txr \<and>
   cancelFunc (init_lastTx cs txr) = cancelFunc txr \<and>
   mainContext (init_lastTx cs txr) = mainContext txr \<and>
   consecutiveFailures (init_lastTx cs txr) = consecutiveFailures txr"
  by (simp add: init_lastTx_def)

lemma fetchNextTx_calls_prefix:
  assumes "ensure_connected w txr = (e, txr1, calls1)" "running txr"
  shows "prefix calls1 (snd (fetchNextTx w txr))"
  using assms
  by (simp add: fetchNextTx_def Let_def split: option.splits sum.splits prod.splits outcome.splits)

text \<open>
  C10. If \<open>connect\<close> fails, at the creation of the client, at the login or at the selection
  of the database, the field \<open>client\<close> is as it was. In \<open>fetchNextTx\<close>, where \<open>connect\<close>
  is called on a nil \<open>client\<close>, the error is returned with \<open>client\<close> still nil, and the
  calls of every later iteration on that state begin with the calls of a whole new
  \<open>connect\<close>, starting at the creation of a client.
\<close>

theorem connect_failure_keeps_client_nil:
  assumes "connect w txr = (Some err, txr', calls)"
  shows "client txr' = client txr \<and>
         (running txr \<and> client txr = None \<longrightarrow>
            fetchNextTx w txr = (Return (Some err, txr'), calls) \<and>
            (\<forall>w'. prefix (snd (snd (connect w' txr'))) (snd (fetchNextTx w' txr')) \<and>
                  (\<exists>rest. snd (snd (connect w' txr')) =
                     NewImmuClient (masterAddress (opts txr)) (masterPort (opts txr)) # rest)))"
proof -
  from assms have c: "client txr' = client txr"
    using connect_client [of w txr] by simp
  from assms have r: "running txr' = running txr" "opts txr' = opts txr"
    using connect_frame [of w txr] by simp_all
  show ?thesis
  proof (intro conjI impI allI)
    show "client txr' = client txr" by (rule c)
  next
    assume a: "running txr \<and> client txr = None"
    with assms show "fetchNextTx w txr = (Return (Some err, txr'), calls)"
      by (simp add: fetchNextTx_def ensure_connected_def)
  next
    fix w'
    assume a: "running txr \<and> client txr = None"
    with c r have "ensure_connected w' txr' = connect w' txr'" "running txr'"
      by (simp_all add: ensure_connected_def)
    then show "prefix (snd (snd (connect w' txr'))) (snd (fetchNextTx w' txr'))"
      using fetchNextTx_calls_prefix [of w' txr' "fst (connect w' txr')" "fst (snd (connect w' txr'))" "snd (snd (connect w' txr'))"]
      by simp
  next
    fix w'
    show "\<exists>rest. snd (snd (connect w' txr')) =
                     NewImmuClient (masterAddress (opts txr)) (masterPort (opts txr)) # rest"
      using connect_calls_start [of w' txr'] r by simp
  qed
qed

theorem connect_failure_keeps_client_nil_witness:
  "connect login_fails started_txr =
     (Some (Errorf ''invalid credentials''), started_txr,
      [NewImmuClient ''127.0.0.1'' 3322, Login 1 ''follower'' ''secret'']) \<and>
   running started_txr \<and> client started_txr = None \<and>
   fetchNextTx login_fails started_txr =
     (Return (Some (Errorf ''invalid credentials''), started_txr),
      [NewImmuClient ''127.0.0.1'' 3322, Login 1 ''follower'' ''secret'']) \<and>
   prefix [NewImmuClient ''127.0.0.1'' 3322, Login 1 ''follower'' ''secret'',
           UseDatabase 1 ''login-token'' ''defaultdb'']
          (snd (fetchNextTx good_world started_txr))"
proof -
  have c: "connect login_fails started_txr =
     (Some (Errorf ''invalid credentials''), started_txr,
      [NewImmuClient ''127.0.0.1'' 3322, Login 1 ''follower'' ''secret''])"
    by (simp add: connect_def example_defs)
  have g: "snd (snd (connect good_world started_txr)) =
      [NewImmuClient ''127.0.0.1'' 3322, Login 1 ''follower'' ''secret'',
           UseDatabase 1 ''login-token'' ''defaultdb'']"
    by (simp add: connect_def example_defs)
  have r: "running started_txr \<and> client started_txr = None"
    by (simp add: example_defs)
  from connect_failure_keeps_client_nil [OF c] r
  have f: "fetchNextTx login_fails started_txr =
     (Return (Some (Errorf ''invalid credentials''), started_txr),
      [NewImmuClient ''127.0.0.1'' 3322, Login 1 ''follower'' ''secret''])"
    and p: "prefix (snd (snd (connect good_world started_txr)))
                   (snd (fetchNextTx good_world started_txr))"
    by blast+
  from p have "prefix [NewImmuClient ''127.0.0.1'' 3322, Login 1 ''follower'' ''secret'',
           UseDatabase 1 ''login-token'' ''defaultdb'']
          (snd (fetchNextTx good_world started_txr))"
    by (simp only: g)
  with c r f show ?thesis by blast
qed

subsection \<open>fetchNextTx: the answer of ExportTx\<close>

text \<open>The iteration up to the call of ExportTx.\<close>

lemma fetchNextTx_export_error:
  assumes "running txr"
    and "ensure_connected w txr = (None, txr1, calls1)"
    and "client txr1 = Some c"
    and "db_CurrentState w = Inr cs"
    and "txr2 = init_lastTx cs txr1"
    and "req = export_request (db_IsSyncReplicationEnabled w) cs txr2"
    and "client_ExportTx w c req = Inl err"
  shows "fetchNextTx w txr =
           (Return (fst (export_failed w cs err txr2), txr2),
            calls1 @ [CurrentState, ExportTx c req] @ snd (export_failed w cs err txr2))"
  using assms by (simp add: fetchNextTx_def Let_def init_lastTx_frame)

lemma fetchNextTx_exported:
  assumes "running txr"
    and "ensure_connected w txr = (None, txr1, calls1)"
    and "client txr1 = Some c"
    and "db_CurrentState w = Inr cs"
    and "txr2 = init_lastTx cs txr1"
    and "req = export_request (db_IsSyncReplicationEnabled w) cs txr2"
    and "client_ExportTx w c req = Inr exportTxStream"
    and "ReadFully exportTxStream = (etx, rerr)"
    and "rerr = None \<or> rerr = Some EOF"
  shows "fetchNextTx w txr =
           (case (if db_IsSyncReplicationEnabled w then sync_trailer w exportTxStream
                  else (Return None, [])) of
              (Panic msg, calls2) \<Rightarrow>
                (Panic msg, calls1 @ [CurrentState, ExportTx c req] @ calls2)
            | (Return (Some err), calls2) \<Rightarrow>
                (Return (Some err, txr2), calls1 @ [CurrentState, ExportTx c req] @ calls2)
            | (Return None, calls2) \<Rightarrow>
                (case handoff etx txr2 of
                   Panic msg \<Rightarrow> (Panic msg, calls1 @ [CurrentState, ExportTx c req] @ calls2)
                 | Return txr3 \<Rightarrow>
                     (Return (None, txr3), calls1 @ [CurrentState, ExportTx c req] @ calls2)))"
  using assms by (auto simp: fetchNextTx_def Let_def init_lastTx_frame)

text \<open>
  C1, as the code has it. When \<open>ExportTx\<close> fails with an error whose message names a
  diverged precommit state (and not a diverged commit state) and discarding is allowed,
  \<open>fetchNextTx\<close> calls \<open>DiscardPrecommittedTxsSince\<close> with the committed transaction id
  plus one and returns what that call returned: nil when the discarding succeeded, the
  error of the discarding otherwise. The error of \<open>ExportTx\<close> is not returned.
\<close>

theorem precommit_divergence_discards:
  assumes "running txr"
    and "ensure_connected w txr = (None, txr1, calls1)"
    and "client txr1 = Some c"
    and "db_CurrentState w = Inr cs"
    and "txr2 = init_lastTx cs txr1"
    and "req = export_request (db_IsSyncReplicationEnabled w) cs txr2"
    and "client_ExportTx w c req = Inl err"
    and "Contains (Error err) precommit_diverged"
    and "\<not> Contains (Error err) commit_diverged"
    and "allowTxDiscarding txr"
  shows "fetchNextTx w txr =
           (Return (db_DiscardPrecommittedTxsSince w (TxId cs + 1), txr2),
            calls1 @ [CurrentState, ExportTx c req, DiscardPrecommittedTxsSince (TxId cs + 1)])"
proof -
  from assms(2) have "allowTxDiscarding txr1 = allowTxDiscarding txr"
    using ensure_connected_frame [of w txr] by simp
  with assms have a: "allowTxDiscarding txr2" by (simp add: init_lastTx_frame)
  from assms(8,9) a have "export_failed w cs err txr2 =
      (db_DiscardPrecommittedTxsSince w (TxId cs + 1), [DiscardPrecommittedTxsSince (TxId cs + 1)])"
    by (simp add: export_failed_def Let_def)
  with fetchNextTx_export_error [OF assms(1-7)] show ?thesis by simp
qed

theorem precommit_divergence_discards_witness:
  "running started_txr \<and> allowTxDiscarding started_txr \<and>
   Contains (Error (Errorf (''rpc error: '' @ precommit_diverged))) precommit_diverged \<and>
   fetchNextTx discard_fails started_txr =
     (Return (Some (Errorf ''discard failed''), connected_txr\<lparr>lastTx := 4\<rparr>),
      connect_calls @
      [CurrentState, ExportTx 1 \<lparr>Tx = 5, ReqFollowerState = None, AllowPreCommitted = False\<rparr>,
       DiscardPrecommittedTxsSince 5])"
proof -
  have h1: "running started_txr" and h10: "allowTxDiscarding started_txr"
    by (simp_all add: example_defs)
  have h2: "ensure_connected discard_fails started_txr = (None, connected_txr, connect_calls)"
    by (simp add: ensure_connected_def connect_def example_defs)
  have h3: "client connected_txr = Some 1" by (simp add: example_defs)
  have h4: "db_CurrentState discard_fails = Inr example_state" by (simp add: example_defs)
  have h7: "client_ExportTx discard_fails 1
              (export_request (db_IsSyncReplicationEnabled discard_fails) example_state
                 (init_lastTx example_state connected_txr)) =
            Inl (Errorf (''rpc error: '' @ precommit_diverged))"
    by (simp add: example_defs)
  have h8: "Contains (Error (Errorf (''rpc error: '' @ precommit_diverged))) precommit_diverged"
    by (simp add: precommit_diverged_def)
  have h9: "\<not> Contains (Error (Errorf (''rpc error: '' @ precommit_diverged))) commit_diverged"
    by (simp add: precommit_diverged_def commit_diverged_def)
  from precommit_divergence_discards [OF h1 h2 h3 h4 refl refl h7 h8 h9 h10] h1 h10 h8
  show ?thesis
    by (simp add: init_lastTx_def export_request_def example_defs)
qed

text \<open>
  C1, as stated, fails: with discarding allowed and a discarding that succeeds, the
  iteration that met the diverged precommit state returns nil.
\<close>

theorem discard_result_is_returned:
  "client_ExportTx precommit_diverges 1 \<lparr>Tx = 5, ReqFollowerState = None, AllowPreCommitted = False\<rparr> =
     Inl (Errorf (''rpc error: '' @ precommit_diverged)) \<and>
   Contains (Error (Errorf (''rpc error: '' @ precommit_diverged))) precommit_diverged \<and>
   allowTxDiscarding started_txr \<and>
   fetchNextTx precommit_diverges started_txr =
     (Return (None, connected_txr\<lparr>lastTx := 4\<rparr>),
      [NewImmuClient ''127.0.0.1'' 3322, Login 1 ''follower'' ''secret'',
       UseDatabase 1 ''login-token'' ''defaultdb'', CurrentState,
       ExportTx 1 \<lparr>Tx = 5, ReqFollowerState = None, AllowPreCommitted = False\<rparr>,
       DiscardPrecommittedTxsSince 5])"
  by (simp add: fetchNextTx_def ensure_connected_def connect_def init_lastTx_def
      export_request_def export_failed_def commit_diverged_def precommit_diverged_def
      example_defs)

text \<open>
  C5. When \<open>ExportTx\<close> fails with an error whose message names a diverged commit state,
  \<open>fetchNextTx\<close> returns \<open>ErrFollowerDivergedFromMaster\<close>; the loop of the fetcher then
  calls \<open>Stop\<close> and ends, whatever answers were still to come: no further iteration is
  made. On a queue that is not yet closed that \<open>Stop\<close> closes the queue, logs out,
  disconnects and leaves the replicator not running.
\<close>

theorem committed_divergence_stops:
  assumes "running txr"
    and "ensure_connected w txr = (None, txr1, calls1)"
    and "client txr1 = Some c"
    and "db_CurrentState w = Inr cs"
    and "txr2 = init_lastTx cs txr1"
    and "req = export_request (db_IsSyncReplicationEnabled w) cs txr2"
    and "client_ExportTx w c req = Inl err"
    and "Contains (Error err) commit_diverged"
  shows "fetchNextTx w txr =
           (Return (Some ErrFollowerDivergedFromMaster, txr2),
            calls1 @ [CurrentState, ExportTx c req]) \<and>
         (\<forall>ws calls. fetcher (w # ws) txr calls =
            (case Stop txr2 of
               (Panic msg, calls2) \<Rightarrow>
                 Crashed msg (calls @ (calls1 @ [CurrentState, ExportTx c req]) @ calls2)
             | (Return (e, txr3), calls2) \<Rightarrow>
                 Exited txr3 (calls @ (calls1 @ [CurrentState, ExportTx c req]) @ calls2))) \<and>
         (\<not> closed (prefetchTxBuffer txr) \<longrightarrow>
            (\<exists>txr3. Stop txr2 = (Return (None, txr3), [Logout c (clientContext txr2), Disconnect c]) \<and>
                    \<not> running txr3 \<and> client txr3 = None \<and> closed (prefetchTxBuffer txr3)))"
proof -
  from assms(8) have "export_failed w cs err txr2 = (Some ErrFollowerDivergedFromMaster, [])"
    by (simp add: export_failed_def)
  with fetchNextTx_export_error [OF assms(1-7)]
  have f: "fetchNextTx w txr =
           (Return (Some ErrFollowerDivergedFromMaster, txr2),
            calls1 @ [CurrentState, ExportTx c req])"
    by simp
  from assms(1,2,5) have r: "running txr2" "prefetchTxBuffer txr2 = prefetchTxBuffer txr"
    using ensure_connected_frame [of w txr] by (simp_all add: init_lastTx_frame)
  from assms(3,5) have c: "client txr2 = Some c" by (simp add: init_lastTx_frame)
  have s: "\<exists>txr3. Stop txr2 = (Return (None, txr3), [Logout c (clientContext txr2), Disconnect c]) \<and>
                    \<not> running txr3 \<and> client txr3 = None \<and> closed (prefetchTxBuffer txr3)"
    if "\<not> closed (prefetchTxBuffer txr)"
    using that r c
    by (cases "cancelFunc txr2")
       (simp_all add: Stop_def Let_def close_def disconnect_def cancel_def)
  show ?thesis
    using f s by (simp split: prod.splits outcome.splits)
qed

theorem committed_divergence_stops_witness:
  "running started_txr \<and>
   Contains (Error (Errorf (''rpc error: '' @ commit_diverged))) commit_diverged \<and>
   fetchNextTx commit_diverges started_txr =
     (Return (Some ErrFollowerDivergedFromMaster, connected_txr\<lparr>lastTx := 4\<rparr>),
      connect_calls @
      [CurrentState, ExportTx 1 \<lparr>Tx = 5, ReqFollowerState = None, AllowPreCommitted = False\<rparr>]) \<and>
   fetcher [commit_diverges, good_world, good_world] started_txr [] =
     Exited (cancel (connected_txr\<lparr>lastTx := 4, client := None, running := False,
                                   prefetchTxBuffer := \<lparr>buf = [], capacity = 100, closed = True\<rparr>\<rparr>))
       (connect_calls @
        [CurrentState, ExportTx 1 \<lparr>Tx = 5, ReqFollowerState = None, AllowPreCommitted = False\<rparr>,
         Logout 1 (Some ''db-token''), Disconnect 1])"
proof -
  have h1: "running started_txr"
    by (simp_all add: example_defs)
  have h2: "ensure_connected commit_diverges started_txr = (None, connected_txr, connect_calls)"
    by (simp add: ensure_connected_def connect_def example_defs)
  have h3: "client connected_txr = Some 1" by (simp add: example_defs)
  have h4: "db_CurrentState commit_diverges = Inr example_state" by (simp add: example_defs)
  have h7: "client_ExportTx commit_diverges 1
              (export_request (db_IsSyncReplicationEnabled commit_diverges) example_state
                 (init_lastTx example_state connected_txr)) =
            Inl (Errorf (''rpc error: '' @ commit_diverged))"
    by (simp add: example_defs)
  have h8: "Contains (Error (Errorf (''rpc error: '' @ commit_diverged))) commit_diverged"
    by (simp add: commit_diverged_def)
  have s: "Stop (init_lastTx example_state connected_txr) =
      (Return (None, cancel (connected_txr\<lparr>lastTx := 4, client := None, running := False,
                                   prefetchTxBuffer := \<lparr>buf = [], capacity = 100, closed = True\<rparr>\<rparr>)),
       [Logout 1 (Some ''db-token''), Disconnect 1])"
    by (simp add: Stop_def cancel_def close_def disconnect_def init_lastTx_def example_defs)
  from committed_divergence_stops [OF h1 h2 h3 h4 refl refl h7 h8] h1 h8 s
  show ?thesis
    by (simp add: init_lastTx_def export_request_def example_defs)
qed

text \<open>
  C7. In synchronous mode, when the trailer of the answer lacks the key
  \<^verbatim>\<open>may-commit-up-to-txid-bin\<close> or the key \<^verbatim>\<open>may-commit-up-to-alh-bin\<close>, \<open>fetchNextTx\<close>
  returns an error that is neither \<open>ErrFollowerDivergedFromMaster\<close> nor
  \<open>ErrAlreadyStopped\<close>, and the loop of the fetcher passes it to \<open>handleError\<close>: it is
  counted and waited on like any other failure.
\<close>

theorem missing_trailer_is_retryable:
  assumes "running txr"
    and "ensure_connected w txr = (None, txr1, calls1)"
    and "client txr1 = Some c"
    and "db_CurrentState w = Inr cs"
    and "txr2 = init_lastTx cs txr1"
    and "req = export_request (db_IsSyncReplicationEnabled w) cs txr2"
    and "client_ExportTx w c req = Inr exportTxStream"
    and "ReadFully exportTxStream = (etx, rerr)"
    and "rerr = None \<or> rerr = Some EOF"
    and "db_IsSyncReplicationEnabled w"
    and "Trailer exportTxStream ''may-commit-up-to-txid-bin'' = [] \<or>
         Trailer exportTxStream ''may-commit-up-to-alh-bin'' = []"
  shows "fetchNextTx w txr =
           (Return (Some MasterNotSync, txr2), calls1 @ [CurrentState, ExportTx c req]) \<and>
         MasterNotSync \<noteq> ErrFollowerDivergedFromMaster \<and>
         MasterNotSync \<noteq> ErrAlreadyStopped \<and>
         (\<forall>ws calls. fetcher (w # ws) txr calls =
            (case handleError (selected w) (Some MasterNotSync) txr2 of
               (Panic msg, calls2) \<Rightarrow>
                 Crashed msg (calls @ (calls1 @ [CurrentState, ExportTx c req]) @ calls2)
             | (Return (terminate, txr3), calls2) \<Rightarrow>
                 if terminate
                 then Exited txr3 (calls @ (calls1 @ [CurrentState, ExportTx c req]) @ calls2)
                 else fetcher ws txr3 (calls @ (calls1 @ [CurrentState, ExportTx c req]) @ calls2)))"
proof -
  from assms(11) have "sync_trailer w exportTxStream = (Return (Some MasterNotSync), [])"
    by (auto simp: sync_trailer_def MasterNotSync_def Let_def)
  with fetchNextTx_exported [OF assms(1-9)] assms(10)
  have f: "fetchNextTx w txr =
           (Return (Some MasterNotSync, txr2), calls1 @ [CurrentState, ExportTx c req])"
    by simp
  show ?thesis
    using f by (simp add: MasterNotSync_def)
qed

theorem missing_trailer_is_retryable_witness:
  "running started_txr \<and> db_IsSyncReplicationEnabled sync_no_trailer \<and>
   Trailer good_stream ''may-commit-up-to-txid-bin'' = [] \<and>
   fetchNextTx sync_no_trailer started_txr =
     (Return (Some MasterNotSync, connected_txr\<lparr>lastTx := 4\<rparr>),
      connect_calls @
      [CurrentState,
       ExportTx 1 \<lparr>Tx = 5,
                   ReqFollowerState = Some \<lparr>UUID = ''follower-1'', CommittedTxID = 4,
                      CommittedAlh = [], PrecommittedTxID = 4, PrecommittedAlh = []\<rparr>,
                   AllowPreCommitted = True\<rparr>]) \<and>
   fetcher [sync_no_trailer] started_txr [] =
     Alive (connected_txr\<lparr>lastTx := 4, consecutiveFailures := 1\<rparr>)
      (connect_calls @
       [CurrentState,
        ExportTx 1 \<lparr>Tx = 5,
                   ReqFollowerState = Some \<lparr>UUID = ''follower-1'', CommittedTxID = 4,
                      CommittedAlh = [], PrecommittedTxID = 4, PrecommittedAlh = []\<rparr>,
                   AllowPreCommitted = True\<rparr>,
        DelayAfter 1])"
proof -
  have h1: "running started_txr" and h10: "db_IsSyncReplicationEnabled sync_no_trailer"
    by (simp_all add: example_defs)
  have h2: "ensure_connected sync_no_trailer started_txr = (None, connected_txr, connect_calls)"
    by (simp add: ensure_connected_def connect_def example_defs)
  have h3: "client connected_txr = Some 1" by (simp add: example_defs)
  have h4: "db_CurrentState sync_no_trailer = Inr example_state" by (simp add: example_defs)
  have h7: "client_ExportTx sync_no_trailer 1
              (export_request (db_IsSyncReplicationEnabled sync_no_trailer) example_state
                 (init_lastTx example_state connected_txr)) =
            Inr good_stream"
    by (simp add: example_defs)
  have h8: "ReadFully good_stream = ([1, 2, 3], None)" by (simp add: example_defs)
  have h11: "Trailer good_stream ''may-commit-up-to-txid-bin'' = []" by (simp add: example_defs)
  have h: "handleError (selected sync_no_trailer) (Some MasterNotSync) (init_lastTx example_state connected_txr)
      = (Return (False, connected_txr\<lparr>lastTx := 4, consecutiveFailures := 1\<rparr>), [DelayAfter 1])"
    by (simp add: handleError_def init_lastTx_def example_defs)
  have h9: "(None :: error option) = None \<or> (None :: error option) = Some EOF" by simp
  have h11': "Trailer good_stream ''may-commit-up-to-txid-bin'' = [] \<or>
              Trailer good_stream ''may-commit-up-to-alh-bin'' = []"
    by (simp add: example_defs)
  from missing_trailer_is_retryable [OF h1 h2 h3 h4 refl refl h7 h8 h9 h10 h11'] h1 h10 h11 h
  show ?thesis
    by (simp add: init_lastTx_def export_request_def example_defs)
qed

text \<open>
  The value \<^verbatim>\<open>BigEndian.Uint64\<close> decodes: bit \<open>i\<close> of the result is bit \<open>i mod 8\<close> of the
  byte at index \<open>7 - i div 8\<close>, the first byte being the most significant.
\<close>

lemma BigEndian_Uint64_bits:
  assumes "BigEndian_Uint64 b = Return n" and "i < 64"
  shows "bit n i \<longleftrightarrow> bit (b ! (7 - i div 8)) (i mod 8)"
proof -
  from assms(1) have n: "n = ucast (b ! 7) OR push_bit 8 (ucast (b ! 6)) OR push_bit 16 (ucast (b ! 5)) OR
                   push_bit 24 (ucast (b ! 4)) OR push_bit 32 (ucast (b ! 3)) OR
                   push_bit 40 (ucast (b ! 2)) OR push_bit 48 (ucast (b ! 1)) OR
                   push_bit 56 (ucast (b ! 0))"
    by (auto simp: BigEndian_Uint64_def split: if_splits)
  from assms(2) consider "i div 8 = 0" | "i div 8 = 1" | "i div 8 = 2" | "i div 8 = 3"
    | "i div 8 = 4" | "i div 8 = 5" | "i div 8 = 6" | "i div 8 = 7"
    by linarith
  then show ?thesis
  proof cases
    case 1
    then have "i < 8" by linarith
    then show ?thesis using 1 by (auto simp: n bit_simps dest: bit_imp_le_length)
  next
    case 2
    then have "8 \<le> i" "i < 16" "i mod 8 = i - 8" by presburger+
    then show ?thesis using 2 by (auto simp: n bit_simps dest: bit_imp_le_length)
  next
    case 3
    then have "16 \<le> i" "i < 24" "i mod 8 = i - 16" by presburger+
    then show ?thesis using 3 by (auto simp: n bit_simps dest: bit_imp_le_length)
  next
    case 4
    then have "24 \<le> i" "i < 32" "i mod 8 = i - 24" by presburger+
    then show ?thesis using 4 by (auto simp: n bit_simps dest: bit_imp_le_length)
  next
    case 5
    then have "32 \<le> i" "i < 40" "i mod 8 = i - 32" by presburger+
    then show ?thesis using 5 by (auto simp: n bit_simps dest: bit_imp_le_length)
  next
    case 6
    then have "40 \<le> i" "i < 48" "i mod 8 = i - 40" by presburger+
    then show ?thesis using 6 by (auto simp: n bit_simps dest: bit_imp_le_length)
  next
    case 7
    then have "48 \<le> i" "i < 56" "i mod 8 = i - 48" by presburger+
    then show ?thesis using 7 by (auto simp: n bit_simps dest: bit_imp_le_length)
  next
    case 8
    then have "56 \<le> i" "i mod 8 = i - 56" using assms(2) by presburger+
    then show ?thesis using 8 assms(2) by (auto simp: n bit_simps dest: bit_imp_le_length)
  qed
qed

text \<open>
  C4. In synchronous mode, with both keys in the trailer and a transaction id of at least
  eight bytes decoded to \<open>n\<close> (big-endian): \<open>AllowCommitUpto\<close> is called if and only if \<open>n\<close> is greater
  than 0, and then with \<open>n\<close> and the first 32 bytes of the hash in the trailer of this
  answer (the hash itself when it has 32 bytes); when that call fails with an error whose
  message names a diverged commit state, \<open>fetchNextTx\<close> returns
  \<open>ErrFollowerDivergedFromMaster\<close>.
\<close>

theorem allowCommitUpto_from_trailer:
  assumes "running txr"
    and "ensure_connected w txr = (None, txr1, calls1)"
    and "client txr1 = Some c"
    and "db_CurrentState w = Inr cs"
    and "txr2 = init_lastTx cs txr1"
    and "req = export_request (db_IsSyncReplicationEnabled w) cs txr2"
    and "client_ExportTx w c req = Inr exportTxStream"
    and "ReadFully exportTxStream = (etx, rerr)"
    and "rerr = None \<or> rerr = Some EOF"
    and "db_IsSyncReplicationEnabled w"
    and "Trailer exportTxStream ''may-commit-up-to-txid-bin'' = txid # more_txids"
    and "Trailer exportTxStream ''may-commit-up-to-alh-bin'' = alh # more_alhs"
    and "BigEndian_Uint64 txid = Return n"
  shows "snd (fetchNextTx w txr) =
           calls1 @ [CurrentState, ExportTx c req] @
           (if 0 < n then [AllowCommitUpto n (copy32 alh)] else []) \<and>
         (\<forall>t a. AllowCommitUpto t a \<in> set (snd (fetchNextTx w txr)) \<longleftrightarrow>
                  0 < n \<and> t = n \<and> a = copy32 alh) \<and>
         (\<forall>i < 64. bit n i \<longleftrightarrow> bit (txid ! (7 - i div 8)) (i mod 8)) \<and>
         (length alh = 32 \<longrightarrow> copy32 alh = alh) \<and>
         (\<forall>e. 0 < n \<and> db_AllowCommitUpto w n (copy32 alh) = Some e \<and>
               Contains (Error e) commit_diverged \<longrightarrow>
               fst (fetchNextTx w txr) = Return (Some ErrFollowerDivergedFromMaster, txr2))"
proof -
  have t: "sync_trailer w exportTxStream =
        (if 0 < n
         then (case db_AllowCommitUpto w n (copy32 alh) of
                 Some err \<Rightarrow>
                   if Contains (Error err) commit_diverged
                   then (Return (Some ErrFollowerDivergedFromMaster), [AllowCommitUpto n (copy32 alh)])
                   else (Return (Some err), [AllowCommitUpto n (copy32 alh)])
               | None \<Rightarrow> (Return None, [AllowCommitUpto n (copy32 alh)]))
         else (Return None, []))"
    using assms(11-13) by (simp add: sync_trailer_def Let_def)
  have calls: "snd (fetchNextTx w txr) =
           calls1 @ [CurrentState, ExportTx c req] @
           (if 0 < n then [AllowCommitUpto n (copy32 alh)] else [])"
    using fetchNextTx_exported [OF assms(1-9)] assms(10) t
    by (simp split: option.splits outcome.splits)
  have nocall: "AllowCommitUpto t a \<notin> set calls1" for t a
    using ensure_connected_calls [OF assms(2)] by auto
  have fatal: "fst (fetchNextTx w txr) = Return (Some ErrFollowerDivergedFromMaster, txr2)"
    if "0 < n" "db_AllowCommitUpto w n (copy32 alh) = Some e" "Contains (Error e) commit_diverged"
    for e
    using fetchNextTx_exported [OF assms(1-9)] assms(10) t that by simp
  have bits: "\<forall>i < 64. bit n i \<longleftrightarrow> bit (txid ! (7 - i div 8)) (i mod 8)"
    using BigEndian_Uint64_bits [OF assms(13)] by blast
  have verbatim: "length alh = 32 \<longrightarrow> copy32 alh = alh"
    by (simp add: copy32_def)
  have iff: "\<forall>t a. AllowCommitUpto t a \<in> set (snd (fetchNextTx w txr)) \<longleftrightarrow>
                  0 < n \<and> t = n \<and> a = copy32 alh"
    using calls nocall by auto
  from calls iff bits verbatim fatal show ?thesis by blast
qed

theorem allowCommitUpto_from_trailer_witness:
  "running started_txr \<and> db_IsSyncReplicationEnabled sync_hint \<and>
   BigEndian_Uint64 [0, 0, 0, 0, 0, 0, 0, 10] = Return 10 \<and>
   fetchNextTx sync_hint started_txr =
     (Return (None, connected_txr\<lparr>lastTx := 4\<rparr>),
      connect_calls @
      [CurrentState,
       ExportTx 1 \<lparr>Tx = 5,
                   ReqFollowerState = Some \<lparr>UUID = ''follower-1'', CommittedTxID = 4,
                      CommittedAlh = [], PrecommittedTxID = 4, PrecommittedAlh = []\<rparr>,
                   AllowPreCommitted = True\<rparr>,
       AllowCommitUpto 10 (replicate 32 7)])"
proof -
  have h1: "running started_txr" and h10: "db_IsSyncReplicationEnabled sync_hint"
    by (simp_all add: example_defs)
  have h2: "ensure_connected sync_hint started_txr = (None, connected_txr, connect_calls)"
    by (simp add: ensure_connected_def connect_def example_defs)
  have h3: "client connected_txr = Some 1" by (simp add: example_defs)
  have h4: "db_CurrentState sync_hint = Inr example_state" by (simp add: example_defs)
  have h7: "client_ExportTx sync_hint 1
              (export_request (db_IsSyncReplicationEnabled sync_hint) example_state
                 (init_lastTx example_state connected_txr)) =
            Inr hint_stream"
    by (simp add: example_defs)
  have h8: "ReadFully hint_stream = ([], Some EOF)" by (simp add: example_defs)
  have h11: "Trailer hint_stream ''may-commit-up-to-txid-bin'' = [0, 0, 0, 0, 0, 0, 0, 10] # []"
    and h12: "Trailer hint_stream ''may-commit-up-to-alh-bin'' = replicate 32 7 # []"
    by (simp_all add: example_defs)
  have h13: "BigEndian_Uint64 [0, 0, 0, 0, 0, 0, 0, 10] = Return 10"
    by (simp add: BigEndian_Uint64_def)
  have l: "length (replicate 32 (7 :: byte)) = 32" by simp
  have f: "fst (fetchNextTx sync_hint started_txr) = Return (None, connected_txr\<lparr>lastTx := 4\<rparr>)"
    by (simp add: fetchNextTx_def ensure_connected_def connect_def init_lastTx_def
        export_request_def sync_trailer_def handoff_def h13 example_defs)
  have h9: "Some EOF = None \<or> Some EOF = Some EOF" by simp
  from allowCommitUpto_from_trailer [OF h1 h2 h3 h4 refl refl h7 h8 h9 h10 h11 h12 h13] l
  have "snd (fetchNextTx sync_hint started_txr) =
      connect_calls @
      [CurrentState,
       ExportTx 1 \<lparr>Tx = 5,
                   ReqFollowerState = Some \<lparr>UUID = ''follower-1'', CommittedTxID = 4,
                      CommittedAlh = [], PrecommittedTxID = 4, PrecommittedAlh = []\<rparr>,
                   AllowPreCommitted = True\<rparr>,
       AllowCommitUpto 10 (replicate 32 7)]"
    by (simp add: init_lastTx_def export_request_def example_defs)
  with f h1 h10 h13 show ?thesis
    by (simp add: prod_eq_iff)
qed

subsection \<open>The sequence of requested transactions\<close>

lemma requested_append: "requested (xs @ ys) = requested xs @ requested ys"
  by (induction xs rule: requested.induct) simp_all

lemma requested_connect:
  assumes "ensure_connected w txr = (e, txr1, calls1)"
  shows "requested calls1 = []"
  using assms
  by (auto simp: ensure_connected_def connect_def Let_def split: if_splits sum.splits)

lemma requested_export_failed: "requested (snd (export_failed w cs err txr)) = []"
  by (simp add: export_failed_def Let_def)

lemma requested_sync_trailer: "requested (snd (sync_trailer w s)) = []"
  by (simp add: sync_trailer_def Let_def split: outcome.splits option.splits)

lemma ensure_connected_client:
  assumes "ensure_connected w txr = (None, txr1, calls1)"
  shows "\<exists>c. client txr1 = Some c"
  using assms connect_client [of w txr]
  by (auto simp: ensure_connected_def split: if_splits)

text \<open>An iteration that returns nil has asked for exactly one transaction.\<close>

lemma fetchNextTx_nil:
  assumes "fetchNextTx w txr = (Return (None, txr'), calls)"
  shows "\<exists>cs c req.
           db_CurrentState w = Inr cs \<and>
           Tx req = (if lastTx txr = 0 then PrecommittedTxId cs else lastTx txr) + 1 \<and>
           requested calls = [Tx req] \<and>
           lastTx txr' =
             (case client_ExportTx w c req of
                Inl err \<Rightarrow> Tx req - 1
              | Inr exportTxStream \<Rightarrow>
                  if fst (ReadFully exportTxStream) = [] then Tx req - 1 else Tx req) \<and>
           running txr'"
proof -
  from assms have run: "running txr"
    by (auto simp: fetchNextTx_def split: if_splits)
  obtain e1 txr1 calls1 where ec: "ensure_connected w txr = (e1, txr1, calls1)"
    by (cases "ensure_connected w txr") auto
  with assms run have e1: "e1 = None"
    by (cases e1) (auto simp: fetchNextTx_def)
  from ec e1 obtain c where c: "client txr1 = Some c"
    using ensure_connected_client by blast
  from assms run ec e1 obtain cs where cs: "db_CurrentState w = Inr cs"
    by (cases "db_CurrentState w") (auto simp: fetchNextTx_def)
  define txr2 where "txr2 = init_lastTx cs txr1"
  define req where "req = export_request (db_IsSyncReplicationEnabled w) cs txr2"
  from ec have fr: "lastTx txr1 = lastTx txr" "running txr1 = running txr"
    using ensure_connected_frame [of w txr] by simp_all
  have l2: "lastTx txr2 = (if lastTx txr = 0 then PrecommittedTxId cs else lastTx txr)"
    by (simp add: txr2_def init_lastTx_def fr)
  have tx: "Tx req = lastTx txr2 + 1"
    by (simp add: req_def export_request_def)
  have r2: "running txr2" using run fr by (simp add: txr2_def init_lastTx_frame)
  have rc: "requested calls1 = []" using requested_connect [OF ec] .
  show ?thesis
  proof (cases "client_ExportTx w c req")
    case (Inl err)
    from fetchNextTx_export_error [OF run ec [unfolded e1] c cs txr2_def req_def Inl] assms
    have "txr' = txr2" "calls = calls1 @ [CurrentState, ExportTx c req] @ snd (export_failed w cs err txr2)"
      by simp_all
    then show ?thesis
      using cs tx l2 r2 rc Inl
      by (intro exI [of _ cs] exI [of _ c] exI [of _ req])
         (simp add: requested_append requested_export_failed)
  next
    case (Inr s)
    obtain etx rerr where rf: "ReadFully s = (etx, rerr)"
      by (cases "ReadFully s") auto
    have rr: "rerr = None \<or> rerr = Some EOF"
    proof (rule ccontr)
      assume "\<not> ?thesis"
      with assms run ec e1 c cs Inr rf show False
        by (auto simp: fetchNextTx_def Let_def init_lastTx_frame txr2_def [symmetric] req_def [symmetric])
    qed
    from fetchNextTx_exported [OF run ec [unfolded e1] c cs txr2_def req_def Inr rf rr] assms
    have "requested calls = [Tx req] \<and>
          lastTx txr' = (if etx = [] then lastTx txr2 else lastTx txr2 + 1) \<and> running txr'"
      using rc r2 requested_sync_trailer [of w s]
      by (auto simp: requested_append handoff_def send_def
               split: if_splits prod.splits outcome.splits option.splits)
    then show ?thesis
      using cs tx l2 Inr rf
      by (intro exI [of _ cs] exI [of _ c] exI [of _ req]) simp
  qed
qed

lemma word_succ_no_wrap:
  fixes b :: uint64
  assumes "unat b + Suc n < 2 ^ 64"
  shows "unat (b + 1) = unat b + 1" and "b + 1 \<noteq> 0" and "unat (b + 1) + n < 2 ^ 64"
proof -
  from assms have "unat b + unat (1 :: uint64) < 2 ^ LENGTH(64)" by simp
  then show u: "unat (b + 1) = unat b + 1"
    by (simp add: unat_add_lem [THEN iffD1])
  then show "b + 1 \<noteq> 0" by (metis Suc_eq_plus1 nat.distinct(1) unat_0)
  from u assms show "unat (b + 1) + n < 2 ^ 64" by simp
qed

text \<open>One iteration that returns nil in a world that answers with a payload.\<close>

lemma fetch_step:
  assumes "error_free (w # ws) txr" and "answers_payload w"
  shows "\<exists>cs txr1 calls1.
           db_CurrentState w = Inr cs \<and>
           requested calls1 = [(if lastTx txr = 0 then PrecommittedTxId cs else lastTx txr) + 1] \<and>
           lastTx txr1 = (if lastTx txr = 0 then PrecommittedTxId cs else lastTx txr) + 1 \<and>
           error_free ws txr1 \<and>
           (\<forall>calls. fetcher (w # ws) txr calls = fetcher ws txr1 (calls @ calls1))"
proof -
  obtain r calls1 where f0: "fetchNextTx w txr = (r, calls1)"
    by (cases "fetchNextTx w txr")
  with assms(1) obtain p where r: "r = Return p" by (cases r) auto
  obtain e t where p: "p = (e, t)" by (cases p)
  with assms(1) f0 r have "e = None" by (cases e) auto
  with f0 r p have f: "fetchNextTx w txr = (Return (None, t), calls1)" by simp
  have h: "handleError (selected w) None t = (Return (False, t\<lparr>consecutiveFailures := 0\<rparr>), [])"
    by (simp add: handleError_def)
  from assms(1) f h have ef: "error_free ws (t\<lparr>consecutiveFailures := 0\<rparr>)" by simp
  from fetchNextTx_nil [OF f] obtain cs c req where
    cs: "db_CurrentState w = Inr cs"
    and tx: "Tx req = (if lastTx txr = 0 then PrecommittedTxId cs else lastTx txr) + 1"
    and rq: "requested calls1 = [Tx req]"
    and l: "lastTx t =
             (case client_ExportTx w c req of
                Inl err \<Rightarrow> Tx req - 1
              | Inr exportTxStream \<Rightarrow>
                  if fst (ReadFully exportTxStream) = [] then Tx req - 1 else Tx req)"
    by blast
  from assms(2) have "case client_ExportTx w c req of
                 Inl err \<Rightarrow> False
               | Inr exportTxStream \<Rightarrow> fst (ReadFully exportTxStream) \<noteq> []"
    unfolding answers_payload_def by blast
  with l have l': "lastTx t = Tx req" by (cases "client_ExportTx w c req") simp_all
  have "fetcher (w # ws) txr calls = fetcher ws (t\<lparr>consecutiveFailures := 0\<rparr>) (calls @ calls1)"
    for calls
    using f h by simp
  with cs tx rq l' ef show ?thesis
    by (intro exI [of _ cs] exI [of _ "t\<lparr>consecutiveFailures := 0\<rparr>"] exI [of _ calls1]) simp
qed

lemma upt_shift: "[a + 1 ..< a + 1 + Suc n] = (a + 1) # [a + 1 + 1 ..< a + 1 + 1 + n]"
  by (simp add: upt_conv_Cons)

lemma requests_cons:
  assumes "requested calls1 = [l + 1]"
    and "unat (l + 1) = unat l + 1"
    and "map unat (requested calls') = [unat (l + 1) + 1 ..< unat (l + 1) + 1 + n]"
  shows "map unat (requested (calls1 @ calls')) = [unat l + 1 ..< unat l + 1 + Suc n]"
proof -
  have "map unat (requested (calls1 @ calls')) = unat (l + 1) # map unat (requested calls')"
    by (simp add: requested_append assms(1))
  also have "\<dots> = (unat l + 1) # [unat l + 1 + 1 ..< unat l + 1 + 1 + n]"
    by (simp only: assms(3) assms(2))
  also have "\<dots> = [unat l + 1 ..< unat l + 1 + Suc n]"
    by (rule upt_shift [symmetric])
  finally show ?thesis .
qed

lemma fetcher_run:
  assumes "error_free ws txr"
    and "\<forall>w \<in> set ws. answers_payload w"
    and "lastTx txr \<noteq> 0"
    and "unat (lastTx txr) + length ws < 2 ^ 64"
  shows "\<exists>txr' calls'.
           fetcher ws txr calls = Alive txr' (calls @ calls') \<and>
           map unat (requested calls') =
             [unat (lastTx txr) + 1 ..< unat (lastTx txr) + 1 + length ws] \<and>
           lastTx txr' = lastTx txr + of_nat (length ws)"
  using assms
proof (induction ws arbitrary: txr calls)
  case Nil
  then show ?case by simp
next
  case (Cons w ws)
  from Cons.prems(2) have aw: "answers_payload w" and aws: "\<forall>w \<in> set ws. answers_payload w"
    by simp_all
  from fetch_step [OF Cons.prems(1) aw] Cons.prems(3)
  obtain txr1 calls1 where
    rq: "requested calls1 = [lastTx txr + 1]"
    and l: "lastTx txr1 = lastTx txr + 1"
    and ef: "error_free ws txr1"
    and fe: "\<And>calls. fetcher (w # ws) txr calls = fetcher ws txr1 (calls @ calls1)"
    by auto
  from Cons.prems(4) have nw: "unat (lastTx txr) + Suc (length ws) < 2 ^ 64" by simp
  note ws = word_succ_no_wrap [OF nw]
  from ws l have nz: "lastTx txr1 \<noteq> 0" and b: "unat (lastTx txr1) + length ws < 2 ^ 64"
    and u: "unat (lastTx txr1) = unat (lastTx txr) + 1"
    by simp_all
  from Cons.IH [OF ef aws nz b, of "calls @ calls1"]
  obtain txr' calls' where
    f': "fetcher ws txr1 (calls @ calls1) = Alive txr' ((calls @ calls1) @ calls')"
    and r': "map unat (requested calls') =
             [unat (lastTx txr1) + 1 ..< unat (lastTx txr1) + 1 + length ws]"
    and l': "lastTx txr' = lastTx txr1 + of_nat (length ws)"
    by blast
  have "map unat (requested (calls1 @ calls')) =
          [unat (lastTx txr) + 1 ..< unat (lastTx txr) + 1 + length (w # ws)]"
    using requests_cons [OF rq ws(1) r' [unfolded l]] by simp
  moreover have "lastTx txr' = lastTx txr + of_nat (length (w # ws))"
    using l' l by simp
  moreover have "fetcher (w # ws) txr calls = Alive txr' (calls @ (calls1 @ calls'))"
    using fe f' by simp
  ultimately show ?case by blast
qed

text \<open>
  C2, as the code has it. Starting with \<open>lastTx = 0\<close>, a sequence of iterations that all
  return nil and in which the master answers every request with a non-empty payload asks
  for the transactions \<open>k, k + 1, k + 2, \<dots>\<close> without gap or repeat, where \<open>k\<close> is the
  precommitted transaction id of the store at the first iteration plus one, and leaves
  \<open>lastTx\<close> advanced by one for each iteration (as long as the ids stay below \<open>2^64\<close>).
  Any single iteration that returns nil asks for the transaction after \<open>lastTx\<close> (after the
  precommitted transaction id when \<open>lastTx\<close> is 0) and leaves \<open>lastTx\<close> at the id it asked
  for when the payload was non-empty, and one below it (so that the same id is asked for
  again) when the payload was empty or the request was refused.
\<close>

theorem fetch_sequence:
  assumes "error_free (w # ws) txr"
    and "lastTx txr = 0"
    and "db_CurrentState w = Inr cs"
    and "\<forall>w' \<in> set (w # ws). answers_payload w'"
    and "unat (PrecommittedTxId cs) + length (w # ws) < 2 ^ 64"
  shows "(\<exists>txr' calls.
            fetcher (w # ws) txr [] = Alive txr' calls \<and>
            map unat (requested calls) =
              [unat (PrecommittedTxId cs) + 1 ..<
               unat (PrecommittedTxId cs) + 1 + length (w # ws)] \<and>
            lastTx txr' = PrecommittedTxId cs + of_nat (length (w # ws))) \<and>
         (\<forall>w1 t t' calls1.
            fetchNextTx w1 t = (Return (None, t'), calls1) \<longrightarrow>
            (\<exists>cs1 c req.
               db_CurrentState w1 = Inr cs1 \<and>
               Tx req = (if lastTx t = 0 then PrecommittedTxId cs1 else lastTx t) + 1 \<and>
               requested calls1 = [Tx req] \<and>
               lastTx t' =
                 (case client_ExportTx w1 c req of
                    Inl err \<Rightarrow> Tx req - 1
                  | Inr exportTxStream \<Rightarrow>
                      if fst (ReadFully exportTxStream) = [] then Tx req - 1 else Tx req)))"
proof
  from assms(4) have aw: "answers_payload w" and aws: "\<forall>w \<in> set ws. answers_payload w"
    by simp_all
  from fetch_step [OF assms(1) aw] assms(2,3)
  obtain txr1 calls1 where
    rq: "requested calls1 = [PrecommittedTxId cs + 1]"
    and l: "lastTx txr1 = PrecommittedTxId cs + 1"
    and ef: "error_free ws txr1"
    and fe: "\<And>calls. fetcher (w # ws) txr calls = fetcher ws txr1 (calls @ calls1)"
    by auto
  from assms(5) have nw: "unat (PrecommittedTxId cs) + Suc (length ws) < 2 ^ 64" by simp
  note ws = word_succ_no_wrap [OF nw]
  from ws l have nz: "lastTx txr1 \<noteq> 0" and b: "unat (lastTx txr1) + length ws < 2 ^ 64"
    and u: "unat (lastTx txr1) = unat (PrecommittedTxId cs) + 1"
    by simp_all
  from fetcher_run [OF ef aws nz b, of "[] @ calls1"]
  obtain txr' calls' where
    f': "fetcher ws txr1 ([] @ calls1) = Alive txr' (([] @ calls1) @ calls')"
    and r': "map unat (requested calls') =
             [unat (lastTx txr1) + 1 ..< unat (lastTx txr1) + 1 + length ws]"
    and l': "lastTx txr' = lastTx txr1 + of_nat (length ws)"
    by blast
  have "map unat (requested (calls1 @ calls')) =
          [unat (PrecommittedTxId cs) + 1 ..< unat (PrecommittedTxId cs) + 1 + length (w # ws)]"
    using requests_cons [OF rq ws(1) r' [unfolded l]] by simp
  moreover have "lastTx txr' = PrecommittedTxId cs + of_nat (length (w # ws))"
    using l' l by simp
  moreover have "fetcher (w # ws) txr [] = Alive txr' (calls1 @ calls')"
    using fe [of "[]"] f' by simp
  ultimately show "\<exists>txr' calls.
            fetcher (w # ws) txr [] = Alive txr' calls \<and>
            map unat (requested calls) =
              [unat (PrecommittedTxId cs) + 1 ..<
               unat (PrecommittedTxId cs) + 1 + length (w # ws)] \<and>
            lastTx txr' = PrecommittedTxId cs + of_nat (length (w # ws))"
    by blast
next
  show "\<forall>w1 t t' calls1.
            fetchNextTx w1 t = (Return (None, t'), calls1) \<longrightarrow>
            (\<exists>cs1 c req.
               db_CurrentState w1 = Inr cs1 \<and>
               Tx req = (if lastTx t = 0 then PrecommittedTxId cs1 else lastTx t) + 1 \<and>
               requested calls1 = [Tx req] \<and>
               lastTx t' =
                 (case client_ExportTx w1 c req of
                    Inl err \<Rightarrow> Tx req - 1
                  | Inr exportTxStream \<Rightarrow>
                      if fst (ReadFully exportTxStream) = [] then Tx req - 1 else Tx req))"
    using fetchNextTx_nil by blast
qed

theorem fetch_sequence_witness:
  "error_free [good_world, good_world] started_txr \<and> lastTx started_txr = 0 \<and>
   db_CurrentState good_world = Inr example_state \<and> PrecommittedTxId example_state = 4 \<and>
   answers_payload good_world \<and>
   map unat (requested (calls_of (fetcher [good_world, good_world] started_txr []))) = [5, 6] \<and>
   requested (snd (fetchNextTx sync_hint started_txr)) = [5] \<and>
   fst (fetchNextTx sync_hint started_txr) = Return (None, connected_txr\<lparr>lastTx := 4\<rparr>)"
proof -
  have f1: "fetchNextTx good_world started_txr =
      (Return (None, connected_txr\<lparr>lastTx := 5,
                 prefetchTxBuffer := \<lparr>buf = [[1, 2, 3]], capacity = 100, closed = False\<rparr>\<rparr>),
       connect_calls @ [CurrentState,
         ExportTx 1 \<lparr>Tx = 5, ReqFollowerState = None, AllowPreCommitted = False\<rparr>])"
    by (simp add: fetchNextTx_def ensure_connected_def connect_def init_lastTx_def
        export_request_def handoff_def send_def example_defs)
  have f2: "fetchNextTx good_world
               (connected_txr\<lparr>lastTx := 5,
                 prefetchTxBuffer := \<lparr>buf = [[1, 2, 3]], capacity = 100, closed = False\<rparr>,
                 consecutiveFailures := 0\<rparr>) =
      (Return (None, connected_txr\<lparr>lastTx := 6,
                 prefetchTxBuffer := \<lparr>buf = [[1, 2, 3], [1, 2, 3]], capacity = 100, closed = False\<rparr>,
                 consecutiveFailures := 0\<rparr>),
       [CurrentState,
         ExportTx 1 \<lparr>Tx = 6, ReqFollowerState = None, AllowPreCommitted = False\<rparr>])"
    by (simp add: fetchNextTx_def ensure_connected_def init_lastTx_def
        export_request_def handoff_def send_def example_defs)
  have h1: "error_free [good_world, good_world] started_txr"
    using f1 f2 by (simp add: handleError_def split: prod.splits)
  have h2: "lastTx started_txr = 0" by (simp add: example_defs)
  have h3: "db_CurrentState good_world = Inr example_state" by (simp add: example_defs)
  have p: "PrecommittedTxId example_state = 4" by (simp add: example_defs)
  have a: "answers_payload good_world" by (simp add: answers_payload_def example_defs)
  then have h4: "\<forall>w' \<in> set [good_world, good_world]. answers_payload w'" by simp
  have h5: "unat (PrecommittedTxId example_state) + length [good_world, good_world] < 2 ^ 64"
    by (simp add: example_defs)
  have f3: "fetchNextTx sync_hint started_txr =
     (Return (None, connected_txr\<lparr>lastTx := 4\<rparr>),
      connect_calls @
      [CurrentState,
       ExportTx 1 \<lparr>Tx = 5,
                   ReqFollowerState = Some \<lparr>UUID = ''follower-1'', CommittedTxID = 4,
                      CommittedAlh = [], PrecommittedTxID = 4, PrecommittedAlh = []\<rparr>,
                   AllowPreCommitted = True\<rparr>,
       AllowCommitUpto 10 (replicate 32 7)])"
    by (simp add: fetchNextTx_def ensure_connected_def connect_def init_lastTx_def
        export_request_def sync_trailer_def BigEndian_Uint64_def copy32_def handoff_def
        example_defs)
  note t = fetch_sequence [OF h1 h2 h3 h4 h5]
  from t obtain txr' calls where
    "fetcher [good_world, good_world] started_txr [] = Alive txr' calls"
    "map unat (requested calls) = [unat (PrecommittedTxId example_state) + 1 ..<
               unat (PrecommittedTxId example_state) + 1 + length [good_world, good_world]]"
    by blast
  then have r: "map unat (requested (calls_of (fetcher [good_world, good_world] started_txr []))) = [5, 6]"
    by (simp add: p upt_rec)
  have h3': "db_CurrentState sync_hint = Inr example_state" by (simp add: example_defs)
  from t [THEN conjunct2, rule_format, OF f3] h3' h2 p f3
  have r2: "requested (snd (fetchNextTx sync_hint started_txr)) = [5]"
    by auto
  from h1 h2 h3 p a r r2 f3 show ?thesis by simp
qed

text \<open>
  C2, as stated, fails: two iterations that return nil, the first with an empty payload,
  ask for the same transaction twice.
\<close>

theorem empty_payload_repeats_request:
  "error_free [sync_hint, sync_hint] started_txr \<and>
   requested (calls_of (fetcher [sync_hint, sync_hint] started_txr [])) = [5, 5]"
proof -
  have f1: "fetchNextTx sync_hint started_txr =
     (Return (None, connected_txr\<lparr>lastTx := 4\<rparr>),
      connect_calls @
      [CurrentState,
       ExportTx 1 \<lparr>Tx = 5,
                   ReqFollowerState = Some \<lparr>UUID = ''follower-1'', CommittedTxID = 4,
                      CommittedAlh = [], PrecommittedTxID = 4, PrecommittedAlh = []\<rparr>,
                   AllowPreCommitted = True\<rparr>,
       AllowCommitUpto 10 (replicate 32 7)])"
    by (simp add: fetchNextTx_def ensure_connected_def connect_def init_lastTx_def
        export_request_def sync_trailer_def BigEndian_Uint64_def copy32_def handoff_def
        example_defs)
  have f2: "fetchNextTx sync_hint (connected_txr\<lparr>lastTx := 4, consecutiveFailures := 0\<rparr>) =
     (Return (None, connected_txr\<lparr>lastTx := 4, consecutiveFailures := 0\<rparr>),
      [CurrentState,
       ExportTx 1 \<lparr>Tx = 5,
                   ReqFollowerState = Some \<lparr>UUID = ''follower-1'', CommittedTxID = 4,
                      CommittedAlh = [], PrecommittedTxID = 4, PrecommittedAlh = []\<rparr>,
                   AllowPreCommitted = True\<rparr>,
       AllowCommitUpto 10 (replicate 32 7)])"
    by (simp add: fetchNextTx_def ensure_connected_def init_lastTx_def
        export_request_def sync_trailer_def BigEndian_Uint64_def copy32_def handoff_def
        example_defs)
  show ?thesis
    using f1 f2 by (simp add: handleError_def connect_calls_def)
qed

subsection \<open>The applier\<close>

lemma replicate_retry_failures:
  assumes "mainContext txr = Some ctx"
    and "\<forall>w \<in> set fails. transient_failure w etx \<and> selected w = TimerFired"
  shows "replicate_retry txr etx n (fails @ rest) calls =
           replicate_retry txr etx (n + of_nat (length fails)) rest
             (calls @ backoff_calls etx n (length fails))"
  using assms
proof (induction fails arbitrary: n calls)
  case Nil
  then show ?case by simp
next
  case (Cons w fails)
  from Cons.prems(2) obtain err where
    "db_ReplicateTx w etx = Some err" "err \<noteq> ErrAlreadyStopped"
    "\<not> Contains (Error err) already_committed" "selected w = TimerFired"
    by (auto simp: transient_failure_def split: option.splits)
  with Cons.prems(1)
  have step: "replicate_retry txr etx n ((w # fails) @ rest) calls =
          replicate_retry txr etx (n + 1) (fails @ rest)
            (calls @ [ReplicateTx etx, DelayAfter (n + 1)])"
    by simp
  have ih: "replicate_retry txr etx (n + 1) (fails @ rest)
            (calls @ [ReplicateTx etx, DelayAfter (n + 1)]) =
          replicate_retry txr etx (n + 1 + of_nat (length fails)) rest
             ((calls @ [ReplicateTx etx, DelayAfter (n + 1)]) @
              backoff_calls etx (n + 1) (length fails))"
    using Cons.prems by (intro Cons.IH) simp_all
  have a: "n + of_nat (length (w # fails)) = n + 1 + of_nat (length fails)"
    by simp
  have b: "calls @ backoff_calls etx n (length (w # fails)) =
           (calls @ [ReplicateTx etx, DelayAfter (n + 1)]) @
           backoff_calls etx (n + 1) (length fails)"
    by simp
  show ?case
    by (simp only: a b step ih)
qed

lemma backoff_calls_delays:
  "[d. DelayAfter d \<leftarrow> backoff_calls etx n k] = map (\<lambda>i. n + of_nat (Suc i)) [0 ..< k]"
proof (induction k arbitrary: n)
  case 0
  then show ?case by simp
next
  case (Suc k)
  have u: "[0 ..< Suc k] = 0 # map Suc [0 ..< k]"
    by (simp add: upt_conv_Cons map_Suc_upt del: upt_Suc)
  show ?case
    using Suc.IH [of "n + 1"]
    by (simp only: u) (simp add: o_def add.assoc)
qed

lemma range_loop_frame:
  assumes "range_loop txr q ws calls = Exited txr' calls' \<or>
           range_loop txr q ws calls = Alive txr' calls'"
  shows "\<exists>q'. txr' = dequeued txr q'"
  using assms
proof (induction q arbitrary: ws calls)
  case Nil
  then show ?case by (auto split: if_splits)
next
  case (Cons etx q)
  then show ?case
    by (cases "replicate_retry txr etx 0 ws calls") auto
qed

text \<open>
  C8. For the payload \<open>etx\<close> at the head of the queue, after any number of failed attempts
  (each followed by its backoff): an attempt that succeeds, or that fails with an error
  saying the transaction is already committed, ends the retries and the worker goes on to
  the next payload; an attempt that returns \<open>ErrAlreadyStopped\<close>, or a cancellation during
  the backoff, ends the worker; and as long as the attempts fail the worker keeps retrying.
  The delays are asked for after \<open>1, 2, \<dots>\<close> failures, counted from zero for every
  payload, and the worker changes nothing of the replicator but the queue: the
  supervisor's \<open>consecutiveFailures\<close> is as it was.
\<close>

theorem applier_retries:
  assumes "mainContext txr = Some ctx"
    and "\<forall>w \<in> set fails. transient_failure w etx \<and> selected w = TimerFired"
  shows
    "(replicated w etx \<longrightarrow>
        range_loop txr (etx # q) (fails @ w # rest) calls =
        range_loop txr q rest (calls @ backoff_calls etx 0 (length fails) @ [ReplicateTx etx])) \<and>
     (db_ReplicateTx w etx = Some ErrAlreadyStopped \<longrightarrow>
        range_loop txr (etx # q) (fails @ w # rest) calls =
        Exited (dequeued txr q) (calls @ backoff_calls etx 0 (length fails) @ [ReplicateTx etx])) \<and>
     (transient_failure w etx \<and> selected w = ContextDone \<longrightarrow>
        range_loop txr (etx # q) (fails @ w # rest) calls =
        Exited (dequeued txr q)
          (calls @ backoff_calls etx 0 (length fails) @
           [ReplicateTx etx, DelayAfter (of_nat (length fails) + 1), TimerStop])) \<and>
     range_loop txr (etx # q) fails calls =
       Alive (dequeued txr q) (calls @ backoff_calls etx 0 (length fails)) \<and>
     [d. DelayAfter d \<leftarrow> backoff_calls etx 0 (length fails)] =
       map (\<lambda>i. of_nat (Suc i)) [0 ..< length fails] \<and>
     (\<forall>ws txr' calls'.
        applier ws txr = Exited txr' calls' \<or> applier ws txr = Alive txr' calls' \<longrightarrow>
        consecutiveFailures txr' = consecutiveFailures txr \<and> (\<exists>q'. txr' = dequeued txr q'))"
proof -
  note r = replicate_retry_failures [OF assms, of 0]
  have last: "replicate_retry txr etx 0 (fails @ w # rest) calls =
      replicate_retry txr etx (of_nat (length fails)) (w # rest)
        (calls @ backoff_calls etx 0 (length fails))"
    using r [of "w # rest" calls] by simp
  have none: "replicate_retry txr etx 0 fails calls =
      Retrying (calls @ backoff_calls etx 0 (length fails))"
    using r [of "[]" calls] by simp
  have 1: "range_loop txr (etx # q) (fails @ w # rest) calls =
        range_loop txr q rest (calls @ backoff_calls etx 0 (length fails) @ [ReplicateTx etx])"
    if "replicated w etx"
    using that last by (auto simp: replicated_def split: option.splits)
  have 2: "range_loop txr (etx # q) (fails @ w # rest) calls =
        Exited (dequeued txr q) (calls @ backoff_calls etx 0 (length fails) @ [ReplicateTx etx])"
    if "db_ReplicateTx w etx = Some ErrAlreadyStopped"
    using that last by simp
  have 3: "range_loop txr (etx # q) (fails @ w # rest) calls =
        Exited (dequeued txr q)
          (calls @ backoff_calls etx 0 (length fails) @
           [ReplicateTx etx, DelayAfter (of_nat (length fails) + 1), TimerStop])"
    if "transient_failure w etx \<and> selected w = ContextDone"
    using that last assms(1) by (auto simp: transient_failure_def split: option.splits)
  have 4: "range_loop txr (etx # q) fails calls =
       Alive (dequeued txr q) (calls @ backoff_calls etx 0 (length fails))"
    using none by simp
  have 5: "[d. DelayAfter d \<leftarrow> backoff_calls etx 0 (length fails)] =
       map (\<lambda>i. of_nat (Suc i)) [0 ..< length fails]"
    using backoff_calls_delays [of etx 0 "length fails"] by simp
  have 6: "consecutiveFailures txr' = consecutiveFailures txr \<and> (\<exists>q'. txr' = dequeued txr q')"
    if "applier ws txr = Exited txr' calls' \<or> applier ws txr = Alive txr' calls'"
    for ws txr' calls'
    using range_loop_frame [of txr "buf (prefetchTxBuffer txr)" ws "[]" txr' calls'] that
    by (auto simp: applier_def dequeued_def)
  from 1 2 3 4 5 6 show ?thesis by blast
qed

theorem applier_retries_witness:
  "mainContext queued_txr = Some \<lparr>cancelled = False\<rparr> \<and>
   transient_failure disk_full [1, 2, 3] \<and> selected disk_full = TimerFired \<and>
   replicated good_world [1, 2, 3] \<and> replicated committed_before [4] \<and>
   applier [disk_full, disk_full, good_world, committed_before] queued_txr =
     Exited (dequeued queued_txr [])
       [ReplicateTx [1, 2, 3], DelayAfter 1, ReplicateTx [1, 2, 3], DelayAfter 2,
        ReplicateTx [1, 2, 3], ReplicateTx [4]] \<and>
   consecutiveFailures (dequeued queued_txr []) = 2"
proof -
  have h1: "mainContext queued_txr = Some \<lparr>cancelled = False\<rparr>"
    by (simp add: queued_txr_def example_defs)
  have t: "transient_failure disk_full [1, 2, 3]" and s: "selected disk_full = TimerFired"
    by (simp_all add: transient_failure_def disk_full_def already_committed_def example_defs)
  then have h2: "\<forall>w \<in> set [disk_full, disk_full].
                   transient_failure w [1, 2, 3] \<and> selected w = TimerFired"
    by simp
  have g: "replicated good_world [1, 2, 3]"
    by (simp add: replicated_def example_defs)
  have c: "replicated committed_before [4]"
    by (simp add: replicated_def committed_before_def already_committed_def example_defs)
  have b: "buf (prefetchTxBuffer queued_txr) = [[1, 2, 3], [4]]"
    and cl: "closed (prefetchTxBuffer queued_txr)"
    by (simp_all add: queued_txr_def)
  note th = applier_retries [OF h1 h2, of good_world "[[4]]" "[committed_before]" "[]"]
  from th g
  have "range_loop queued_txr [[1, 2, 3], [4]]
          ([disk_full, disk_full] @ [good_world, committed_before]) [] =
        range_loop queued_txr [[4]] [committed_before]
          ([] @ backoff_calls [1, 2, 3] 0 (length [disk_full, disk_full]) @ [ReplicateTx [1, 2, 3]])"
    by blast
  also have "\<dots> = Exited (dequeued queued_txr [])
       [ReplicateTx [1, 2, 3], DelayAfter 1, ReplicateTx [1, 2, 3], DelayAfter 2,
        ReplicateTx [1, 2, 3], ReplicateTx [4]]"
    using cl
    by (simp add: committed_before_def already_committed_def example_defs)
  finally have "applier [disk_full, disk_full, good_world, committed_before] queued_txr =
     Exited (dequeued queued_txr [])
       [ReplicateTx [1, 2, 3], DelayAfter 1, ReplicateTx [1, 2, 3], DelayAfter 2,
        ReplicateTx [1, 2, 3], ReplicateTx [4]]"
    by (simp add: applier_def b)
  moreover have "consecutiveFailures (dequeued queued_txr []) = 2"
    by (simp add: dequeued_def queued_txr_def)
  ultimately show ?thesis using h1 t s g c by simp
qed

end
